theory Spec2Isabelle
  imports Complex_Main "HOL-Library.Monad_Syntax"
begin

section \<open>JavaScript values used by \<open>src/utils/grass.js\<close>\<close>

text \<open>
  JavaScript numbers are modelled as exact reals (\<open>real\<close>) where the source computes with
  fractions and as \<open>int\<close> where the source uses them as counts and array indices.
  Rounding of IEEE doubles and of \<open>Float32Array\<close> elements is not modelled.
  The two errors the code can raise are values of \<open>js_error\<close>.
\<close>

datatype js_error = RangeError | ReferenceError

definition bindE :: "js_error + 'a \<Rightarrow> ('a \<Rightarrow> js_error + 'b) \<Rightarrow> js_error + 'b" where
  "bindE m f = (case m of Inl e \<Rightarrow> Inl e | Inr x \<Rightarrow> f x)"

text \<open>
  \<open>new Float32Array(n)\<close> and \<open>new Uint32Array(n)\<close> for an integral \<open>n\<close>: a negative
  length raises RangeError, otherwise the array holds \<open>n\<close> zeros. Memory limits of the
  engine are not modelled.
\<close>

definition newTypedArray :: "int \<Rightarrow> js_error + ('a::zero) list" where
  "newTypedArray n = (if n < 0 then Inl RangeError else Inr (replicate (nat n) 0))"

text \<open>
  \<open>a[i] = v\<close> on a typed array: a write outside \<open>0 \<le> i < a.length\<close> is ignored.
\<close>

definition ta_set :: "'a list \<Rightarrow> int \<Rightarrow> 'a \<Rightarrow> 'a list" where
  "ta_set a i v = (if 0 \<le> i \<and> i < int (length a) then a[nat i := v] else a)"

text \<open>A \<open>Uint32Array\<close> element stores its value modulo \<open>2^32\<close>.\<close>

definition toUint32 :: "int \<Rightarrow> int" where
  "toUint32 v = v mod 2 ^ 32"

text \<open>
  \<open>Math.random()\<close> is ambient: the code passes no seed and no generator. The model reads
  the values it returns from a sequence \<open>rnd\<close>, the \<open>k\<close>-th call returning \<open>rnd k\<close>, and
  threads the number of calls made so far. \<open>Math.random()\<close> returns values in \<open>[0, 1)\<close>.
\<close>

type_synonym random_source = "nat \<Rightarrow> real"


text \<open>\<open>for (let i = i0; i < n; i++) body\<close>, the loop state passed through the body.\<close>

function forLoop :: "int \<Rightarrow> int \<Rightarrow> (int \<Rightarrow> 's \<Rightarrow> 's) \<Rightarrow> 's \<Rightarrow> 's" where
  "forLoop i n body s = (if i < n then forLoop (i + 1) n body (body i s) else s)"
  by pat_completeness auto
termination
  by (relation "measure (\<lambda>(i, n, body, s). nat (n - i))") auto

type_synonym vec3 = "real \<times> real \<times> real"
type_synonym vec4 = "real \<times> real \<times> real \<times> real"

text \<open>A \<open>mat4\<close> is its four columns, as GLSL indexes it (\<open>m[3]\<close> is the fourth column).\<close>

type_synonym mat4 = "vec4 \<times> vec4 \<times> vec4 \<times> vec4"

section \<open>Blade geometry\<close>

subsection \<open>Rich variant (\<open>grass.js\<close>, first \<open>createGrassMesh\<close>)\<close>




subsection \<open>Simple variant (\<open>grass.js\<close>, second \<open>createGrassMesh\<close>)\<close>

text \<open>Lines 376--383: the middle vertices.\<close>

definition middleVertices_simple ::
  "random_source \<Rightarrow> real \<Rightarrow> real \<Rightarrow> int \<Rightarrow> real list \<times> nat \<Rightarrow> real list \<times> nat" where
  "middleVertices_simple rnd bladeHeight bladeWidth verticesCount =
     forLoop 1 (verticesCount - 1) (\<lambda>i (vertices, k).
       let t = real_of_int i / real_of_int (verticesCount - 1);
           curveFactor = sin (pi * t) * bladeHeight * 0.2;
           vertices = ta_set vertices (i * 3)
             ((rnd k - 0.5) * bladeWidth * (1 - \<bar>t - 0.5\<bar> * 2));
           vertices = ta_set vertices (i * 3 + 1) (t * bladeHeight + curveFactor);
           vertices = ta_set vertices (i * 3 + 2) ((rnd (k + 1) - 0.5) * 0.05)
       in (vertices, k + 2))"

definition generateBladeVertices_simple ::
  "random_source \<Rightarrow> nat \<Rightarrow> real \<Rightarrow> real \<Rightarrow> int \<Rightarrow> js_error + (real list \<times> nat)" where
  "generateBladeVertices_simple rnd k bladeHeight bladeWidth verticesCount =
     bindE (newTypedArray (verticesCount * 3)) (\<lambda>vertices.
       let vertices = ta_set vertices 0 (- bladeWidth / 2);
           vertices = ta_set vertices 1 0;
           vertices = ta_set vertices 2 0;
           vertices = ta_set vertices ((verticesCount - 1) * 3) (bladeWidth / 2);
           vertices = ta_set vertices ((verticesCount - 1) * 3 + 1) bladeHeight;
           vertices = ta_set vertices ((verticesCount - 1) * 3 + 2) 0
       in Inr (middleVertices_simple rnd bladeHeight bladeWidth verticesCount (vertices, k)))"

definition generateBladeIndices_simple :: "int \<Rightarrow> js_error + int list" where
  "generateBladeIndices_simple verticesCount =
     bindE (newTypedArray ((verticesCount - 1) * 6)) (\<lambda>indices.
       Inr (forLoop 0 (verticesCount - 1) (\<lambda>i indices.
              let indices = ta_set indices (i * 6) (toUint32 i);
                  indices = ta_set indices (i * 6 + 1) (toUint32 (i + 1));
                  indices = ta_set indices (i * 6 + 2) (toUint32 (verticesCount + i));
                  indices = ta_set indices (i * 6 + 3) (toUint32 i);
                  indices = ta_set indices (i * 6 + 4) (toUint32 (verticesCount + i));
                  indices = ta_set indices (i * 6 + 5) (toUint32 (verticesCount + i + 1))
              in indices)
            indices))"

subsection \<open>Reading a position array\<close>

text \<open>
  A position attribute of item size 3 holds \<open>length / 3\<close> vertices; the base vertex is its
  first triple and the tip vertex its last.
\<close>

definition vertexCountOf :: "real list \<Rightarrow> nat" where
  "vertexCountOf vertices = length vertices div 3"

definition base_and_tip :: "real list \<Rightarrow> vec3 \<times> vec3" where
  "base_and_tip vs = ((vs ! 0, vs ! 1, vs ! 2),
     (vs ! (length vs - 3), vs ! (length vs - 2), vs ! (length vs - 1)))"

text \<open>The six writes of base and tip that precede the loop over the middle vertices.\<close>

definition baseTip :: "real \<Rightarrow> real \<Rightarrow> int \<Rightarrow> real list \<Rightarrow> real list" where
  "baseTip w y n vs =
     ta_set (ta_set (ta_set (ta_set (ta_set (ta_set vs 0 (- w / 2)) 1 0) 2 0)
       ((n - 1) * 3) (w / 2)) ((n - 1) * 3 + 1) y) ((n - 1) * 3 + 2) 0"

section \<open>Field construction and wind update\<close>

subsection \<open>Options, uniforms and the mesh\<close>

text \<open>
  The \<open>options\<close> of \<open>createGrassMesh\<close> after destructuring: a property the caller omits
  has the default of the source (\<open>simple_defaults\<close>, \<open>rich_defaults\<close>). The rich variant
  reads five more properties than the simple one.
\<close>

record simple_options =
  bladeHeight :: real
  bladeWidth :: real
  grassBlades :: int
  grassPatchSize :: real
  windSpeed :: real
  windDirectionX :: real
  windDirectionY :: real
  windDirectionZ :: real
  windIntensity :: real
  windTurbulence :: real
  grassColorTop :: int
  grassColorBottom :: int
  verticesPerBlade :: int

record rich_options = simple_options +
  bladeHeightVariation :: real
  windGustFrequency :: real
  windGustIntensity :: real
  microMovement :: real
  wavePropagation :: real

definition simple_defaults :: simple_options where
  "simple_defaults =
     \<lparr>bladeHeight = 15, bladeWidth = 0.1, grassBlades = 500000, grassPatchSize = 200,
      windSpeed = 3.0, windDirectionX = 1, windDirectionY = 0, windDirectionZ = 1,
      windIntensity = 0.5, windTurbulence = 0.7, grassColorTop = 8355609,
      grassColorBottom = 799490, verticesPerBlade = 3\<rparr>"

definition rich_defaults :: rich_options where
  "rich_defaults =
     \<lparr>bladeHeight = 15, bladeWidth = 0.5, grassBlades = 100000, grassPatchSize = 200,
      windSpeed = 3.0, windDirectionX = 1, windDirectionY = 0, windDirectionZ = 1,
      windIntensity = 1.4, windTurbulence = 0.7, grassColorTop = 8355609,
      grassColorBottom = 799490, verticesPerBlade = 3,
      bladeHeightVariation = 0.4, windGustFrequency = 0.15, windGustIntensity = 0.35,
      microMovement = 0.2, wavePropagation = 0.05\<rparr>"

text \<open>
  \<open>new THREE.Color(hex)\<close>: the red, green and blue bytes of \<open>hex\<close> as fractions of 255
  (the colour-space conversion of the library is not modelled).
\<close>

definition three_Color :: "int \<Rightarrow> vec3" where
  "three_Color hex =
     (real_of_int ((hex div 65536) mod 256) / 255,
      real_of_int ((hex div 256) mod 256) / 255,
      real_of_int (hex mod 256) / 255)"

record simple_uniforms =
  uTime :: real
  uWindSpeed :: real
  uWindDirection :: vec3
  uColorBottom :: vec3
  uColorTop :: vec3
  uWindNoiseFactor :: real
  uWindTurbulence :: real
  uWindIntensity :: real
  uBladeHeight :: real
  uBladeWidth :: real

record rich_uniforms = simple_uniforms +
  uGustFrequency :: real
  uGustIntensity :: real
  uMicroMovement :: real
  uWavePropagation :: real





subsection \<open>The loops over the instances\<close>




subsection \<open>\<open>createGrassMesh\<close>\<close>

text \<open>
  The uniforms of the \<open>THREE.ShaderMaterial\<close> each variant creates (lines 105--121 and
  412--423).
\<close>

definition grassMaterial_rich :: "rich_options \<Rightarrow> vec3 \<Rightarrow> rich_uniforms" where
  "grassMaterial_rich options windDirection =
     \<lparr>uTime = 0, uWindSpeed = windSpeed options, uWindDirection = windDirection,
      uColorBottom = three_Color (grassColorBottom options),
      uColorTop = three_Color (grassColorTop options),
      uWindNoiseFactor = 1.0, uWindTurbulence = windTurbulence options,
      uWindIntensity = windIntensity options, uBladeHeight = bladeHeight options,
      uBladeWidth = bladeWidth options,
      uGustFrequency = windGustFrequency options,
      uGustIntensity = windGustIntensity options,
      uMicroMovement = microMovement options,
      uWavePropagation = wavePropagation options\<rparr>"

definition grassMaterial_simple :: "simple_options \<Rightarrow> vec3 \<Rightarrow> simple_uniforms" where
  "grassMaterial_simple options windDirection =
     \<lparr>uTime = 0, uWindSpeed = windSpeed options, uWindDirection = windDirection,
      uColorBottom = three_Color (grassColorBottom options),
      uColorTop = three_Color (grassColorTop options),
      uWindNoiseFactor = 1.0, uWindTurbulence = windTurbulence options,
      uWindIntensity = windIntensity options, uBladeHeight = bladeHeight options,
      uBladeWidth = bladeWidth options\<rparr>"



subsection \<open>\<open>updateWind\<close>\<close>

text \<open>
  The \<open>options\<close> argument of \<open>updateWind\<close>: each property is either supplied or
  \<open>undefined\<close> (\<open>None\<close>); a destructuring default applies exactly to the latter.
\<close>

record wind_options =
  opt_windSpeed :: "real option"
  opt_windDirection :: "vec3 option"
  opt_windIntensity :: "real option"
  opt_windTurbulence :: "real option"

record rich_wind_options = wind_options +
  opt_gustFrequency :: "real option"
  opt_gustIntensity :: "real option"
  opt_microMovement :: "real option"
  opt_wavePropagation :: "real option"

definition orDefault :: "'a option \<Rightarrow> 'a \<Rightarrow> 'a" where
  "orDefault property d = (case property of None \<Rightarrow> d | Some v \<Rightarrow> v)"

text \<open>
  Rich variant, lines 314--341. \<open>closure\<close> is the \<open>options\<close> of the enclosing
  \<open>createGrassMesh\<close> call, whose \<open>windGustFrequency\<close> and \<open>windGustIntensity\<close> the
  defaults read. The defaults \<open>microMovement = microMovement\<close> and
  \<open>wavePropagation = wavePropagation\<close> read the \<open>const\<close> binding that the pattern itself
  declares, before it is initialised: evaluating either raises ReferenceError, before any
  uniform is written.
\<close>

definition updateWind_rich ::
  "rich_options \<Rightarrow> random_source \<Rightarrow> nat \<Rightarrow> rich_uniforms \<Rightarrow> real \<Rightarrow> rich_wind_options \<Rightarrow>
     js_error + (rich_uniforms \<times> nat)" where
  "updateWind_rich closure rnd k uniforms time options =
     (let windSpeed = orDefault (opt_windSpeed options) 3.0;
          windDirection = orDefault (opt_windDirection options) (1, 0, 1);
          windIntensity = orDefault (opt_windIntensity options) 0.5;
          windTurbulence = orDefault (opt_windTurbulence options) 0.7;
          gustFrequency = orDefault (opt_gustFrequency options) (windGustFrequency closure);
          gustIntensity = orDefault (opt_gustIntensity options) (windGustIntensity closure)
      in case opt_microMovement options of
           None \<Rightarrow> Inl ReferenceError
         | Some suppliedMicroMovement \<Rightarrow>
             (case opt_wavePropagation options of
                None \<Rightarrow> Inl ReferenceError
              | Some suppliedWavePropagation \<Rightarrow>
                  Inr (uniforms
                        \<lparr>uTime := time,
                         uWindSpeed := windSpeed,
                         uWindDirection := windDirection,
                         uWindIntensity := windIntensity,
                         uWindTurbulence := windTurbulence,
                         uGustFrequency := gustFrequency,
                         uGustIntensity := gustIntensity,
                         uMicroMovement := suppliedMicroMovement,
                         uWavePropagation := suppliedWavePropagation,
                         uWindNoiseFactor := 0.5 + rnd k * 0.5\<rparr>, k + 1)))"

text \<open>Simple variant, lines 563--578.\<close>

definition updateWind_simple ::
  "random_source \<Rightarrow> nat \<Rightarrow> simple_uniforms \<Rightarrow> real \<Rightarrow> wind_options \<Rightarrow> simple_uniforms \<times> nat" where
  "updateWind_simple rnd k uniforms time options =
     (let windSpeed = orDefault (opt_windSpeed options) 5.5;
          windDirection = orDefault (opt_windDirection options) (1, 0, 1);
          windIntensity = orDefault (opt_windIntensity options) 1.0;
          windTurbulence = orDefault (opt_windTurbulence options) 0.8
      in (uniforms
           \<lparr>uTime := time,
            uWindSpeed := windSpeed,
            uWindDirection := windDirection,
            uWindIntensity := windIntensity,
            uWindTurbulence := windTurbulence,
            uWindNoiseFactor := 0.5 + rnd k * 0.5\<rparr>, k + 1))"

subsection \<open>Reading the result\<close>



section \<open>The vertex shaders\<close>

subsection \<open>GLSL built-ins\<close>

text \<open>
  GLSL floats are modelled as exact reals. An operation whose result GLSL leaves
  undefined, or that IEEE arithmetic answers with an infinity or a NaN, returns \<open>None\<close>:
  division by zero, \<open>inversesqrt\<close> of a value \<open>\<le> 0\<close>, \<open>pow\<close> with a negative base (or
  base 0 and exponent \<open>\<le> 0\<close>) and \<open>normalize\<close> of the zero vector. Overflow is not
  modelled.
\<close>

type_synonym vec2 = "real \<times> real"

definition gl_div :: "real \<Rightarrow> real \<Rightarrow> real option" where
  "gl_div x y = (if y = 0 then None else Some (x / y))"

definition gl_pow :: "real \<Rightarrow> real \<Rightarrow> real option" where
  "gl_pow x y = (if x < 0 \<or> (x = 0 \<and> y \<le> 0) then None else Some (x powr y))"

definition inversesqrt :: "real \<Rightarrow> real option" where
  "inversesqrt x = (if x \<le> 0 then None else Some (1 / sqrt x))"

definition gl_floor :: "real \<Rightarrow> real" where
  "gl_floor x = real_of_int \<lfloor>x\<rfloor>"

definition gl_mod :: "real \<Rightarrow> real \<Rightarrow> real" where
  "gl_mod x y = x - y * gl_floor (x / y)"

definition gl_step :: "real \<Rightarrow> real \<Rightarrow> real" where
  "gl_step edge x = (if x < edge then 0 else 1)"

definition dot3 :: "vec3 \<Rightarrow> vec3 \<Rightarrow> real" where
  "dot3 a b = (case (a, b) of ((a1, a2, a3), (b1, b2, b3)) \<Rightarrow> a1 * b1 + a2 * b2 + a3 * b3)"

definition dot4 :: "vec4 \<Rightarrow> vec4 \<Rightarrow> real" where
  "dot4 a b =
     (case (a, b) of ((a1, a2, a3, a4), (b1, b2, b3, b4)) \<Rightarrow>
        a1 * b1 + a2 * b2 + a3 * b3 + a4 * b4)"

text \<open>Component-wise application to \<open>vec3\<close> and \<open>vec4\<close> values, and scalar broadcast.\<close>

definition map3 :: "(real \<Rightarrow> real) \<Rightarrow> vec3 \<Rightarrow> vec3" where
  "map3 f a = (case a of (a1, a2, a3) \<Rightarrow> (f a1, f a2, f a3))"

definition map4 :: "(real \<Rightarrow> real) \<Rightarrow> vec4 \<Rightarrow> vec4" where
  "map4 f a = (case a of (a1, a2, a3, a4) \<Rightarrow> (f a1, f a2, f a3, f a4))"

definition zip3 :: "(real \<Rightarrow> real \<Rightarrow> real) \<Rightarrow> vec3 \<Rightarrow> vec3 \<Rightarrow> vec3" where
  "zip3 f a b = (case (a, b) of ((a1, a2, a3), (b1, b2, b3)) \<Rightarrow> (f a1 b1, f a2 b2, f a3 b3))"

definition zip4 :: "(real \<Rightarrow> real \<Rightarrow> real) \<Rightarrow> vec4 \<Rightarrow> vec4 \<Rightarrow> vec4" where
  "zip4 f a b =
     (case (a, b) of ((a1, a2, a3, a4), (b1, b2, b3, b4)) \<Rightarrow>
        (f a1 b1, f a2 b2, f a3 b3, f a4 b4))"

definition splat3 :: "real \<Rightarrow> vec3" where
  "splat3 s = (s, s, s)"

definition splat4 :: "real \<Rightarrow> vec4" where
  "splat4 s = (s, s, s, s)"

text \<open>\<open>normalize(v) = v * inversesqrt(dot(v, v))\<close>.\<close>

definition normalize :: "vec3 \<Rightarrow> vec3 option" where
  "normalize v = map_option (\<lambda>n. map3 (\<lambda>c. c * n) v) (inversesqrt (dot3 v v))"

text \<open>\<open>mix(x, y, a) = x * (1 - a) + y * a\<close>, on \<open>vec3\<close> with a scalar weight.\<close>

definition mix3 :: "vec3 \<Rightarrow> vec3 \<Rightarrow> real \<Rightarrow> vec3" where
  "mix3 x y a = zip3 (\<lambda>p q. p * (1 - a) + q * a) x y"

text \<open>\<open>m * v\<close> for a \<open>mat4\<close> given by its columns.\<close>

definition mat4_mul :: "mat4 \<Rightarrow> vec4 \<Rightarrow> vec4" where
  "mat4_mul m v =
     (case (m, v) of ((c0, c1, c2, c3), (v1, v2, v3, v4)) \<Rightarrow>
        zip4 (+) (zip4 (+) (map4 (\<lambda>c. c * v1) c0) (map4 (\<lambda>c. c * v2) c1))
                 (zip4 (+) (map4 (\<lambda>c. c * v3) c2) (map4 (\<lambda>c. c * v4) c3)))"

subsection \<open>\<open>snoise\<close> (the same text in both shaders)\<close>

text \<open>
  Lines 166--176: from the hashed lattice values \<open>p\<close> to the gradient coordinates \<open>x\<close>,
  \<open>y\<close> and \<open>h\<close> (the GLSL locals \<open>n_\<close>, \<open>x_\<close>, \<open>y_\<close> are \<open>n'\<close>, \<open>x'\<close>, \<open>y'\<close> here).
\<close>

definition snoise_lattice :: "vec4 \<Rightarrow> vec4 \<times> vec4 \<times> vec4" where
  "snoise_lattice p =
     (let D = (0, 0.5, 1, 2) :: vec4;
          n' = 1 / 7 :: real;
          ns = (case D of (Dx, Dy, Dz, Dw) \<Rightarrow>
                  zip3 (-) (map3 (\<lambda>c. n' * c) (Dw, Dy, Dz)) (Dx, Dz, Dx));
          nsx = fst ns;
          nsz = snd (snd ns);
          j = zip4 (-) p (map4 (\<lambda>c. 49 * gl_floor (c * nsz * nsz)) p);
          x' = map4 (\<lambda>c. gl_floor (c * nsz)) j;
          y' = map4 gl_floor (zip4 (-) j (map4 (\<lambda>c. 7 * c) x'));
          x = zip4 (+) (map4 (\<lambda>c. c * nsx) x') (0, 1, 2, 3);
          y = zip4 (+) (map4 (\<lambda>c. c * nsx) y') (0, 1, 2, 3);
          h = zip4 (-) (zip4 (-) (splat4 1) (map4 abs x)) (map4 abs y)
      in (x, y, h))"

text \<open>Lines 178--191: the four gradients \<open>p0 \<dots> p3\<close>, before normalisation.\<close>

definition snoise_gradients :: "vec4 \<Rightarrow> vec4 \<Rightarrow> vec4 \<Rightarrow> vec3 \<times> vec3 \<times> vec3 \<times> vec3" where
  "snoise_gradients x y h =
     (case (x, y, h) of ((xx, xy, xz, xw), (yx, yy, yz, yw), (hx, hy, hz, hw)) \<Rightarrow>
        let b0 = (xx, xy, yx, yy);
            b1 = (xz, xw, yz, yw);
            s0 = map4 (\<lambda>c. gl_floor c * 2 + 1) b0;
            s1 = map4 (\<lambda>c. gl_floor c * 2 + 1) b1;
            sh = map4 (\<lambda>c. - gl_step c 0) h
        in case (b0, s0, b1, s1, sh) of
             ((b0x, b0y, b0z, b0w), (s0x, s0y, s0z, s0w), (b1x, b1y, b1z, b1w),
              (s1x, s1y, s1z, s1w), (shx, shy, shz, shw)) \<Rightarrow>
          let a0 = zip4 (+) (b0x, b0z, b0y, b0w)
                     (zip4 (*) (s0x, s0z, s0y, s0w) (shx, shx, shy, shy));
              a1 = zip4 (+) (b1x, b1z, b1y, b1w)
                     (zip4 (*) (s1x, s1z, s1y, s1w) (shz, shz, shw, shw))
          in case (a0, a1) of ((a0x, a0y, a0z, a0w), (a1x, a1y, a1z, a1w)) \<Rightarrow>
               ((a0x, a0y, hx), (a0z, a0w, hy), (a1x, a1y, hz), (a1z, a1w, hw)))"

text \<open>Lines 193--202: normalisation of the gradients and the weighted sum.\<close>

definition snoise_sum ::
  "vec3 \<Rightarrow> vec3 \<Rightarrow> vec3 \<Rightarrow> vec3 \<Rightarrow> vec3 \<Rightarrow> vec3 \<Rightarrow> vec3 \<Rightarrow> vec3 \<Rightarrow> real option" where
  "snoise_sum x0 x1 x2 x3 p0 p1 p2 p3 =
     do {
       normx \<leftarrow> inversesqrt (dot3 p0 p0);
       normy \<leftarrow> inversesqrt (dot3 p1 p1);
       normz \<leftarrow> inversesqrt (dot3 p2 p2);
       normw \<leftarrow> inversesqrt (dot3 p3 p3);
       let p0 = map3 (\<lambda>c. c * normx) p0;
       let p1 = map3 (\<lambda>c. c * normy) p1;
       let p2 = map3 (\<lambda>c. c * normz) p2;
       let p3 = map3 (\<lambda>c. c * normw) p3;
       let m = map4 (\<lambda>c. max (0.6 - c) 0) (dot3 x0 x0, dot3 x1 x1, dot3 x2 x2, dot3 x3 x3);
       let m = zip4 (*) m m;
       Some (42 * dot4 (zip4 (*) m m) (dot3 p0 x0, dot3 p1 x1, dot3 p2 x2, dot3 p3 x3))
     }"

definition snoise :: "vec3 \<Rightarrow> real option" where
  "snoise v =
     (let C = (1 / 6, 1 / 3) :: vec2;
          D = (0, 0.5, 1, 2) :: vec4;
          i = map3 gl_floor (map3 (\<lambda>c. c + dot3 v (splat3 (snd C))) v);
          x0 = map3 (\<lambda>c. c + dot3 i (splat3 (fst C))) (zip3 (-) v i);
          g = (case x0 of (x0x, x0y, x0z) \<Rightarrow> zip3 gl_step (x0y, x0z, x0x) (x0x, x0y, x0z));
          l = map3 (\<lambda>c. 1 - c) g;
          i1 = (case l of (lx, ly, lz) \<Rightarrow> zip3 min g (lz, lx, ly));
          i2 = (case l of (lx, ly, lz) \<Rightarrow> zip3 max g (lz, lx, ly));
          x1 = zip3 (+) (zip3 (-) x0 i1) (splat3 (fst C));
          x2 = zip3 (+) (zip3 (-) x0 i2) (splat3 (snd C));
          x3 = zip3 (-) x0 (splat3 (fst (snd D)));
          i = map3 (\<lambda>c. gl_mod c 289) i;
          p = (case (i, i1, i2) of ((ix, iy, iz), (i1x, i1y, i1z), (i2x, i2y, i2z)) \<Rightarrow>
                 map4 (\<lambda>c. gl_mod c 289)
                   (zip4 (+) (map4 (\<lambda>c. iz + c) (0, i1z, i2z, 1)) (0, i1x, i2x, 1)))
      in case snoise_lattice p of
           (x, y, h) \<Rightarrow>
             (case snoise_gradients x y h of
                (p0, p1, p2, p3) \<Rightarrow> snoise_sum x0 x1 x2 x3 p0 p1 p2 p3))"

subsection \<open>\<open>main\<close>\<close>

text \<open>
  The inputs of one vertex evaluation: the vertex attribute \<open>position\<close>, the instance
  matrix and the instanced attributes (which only the rich shader declares).
\<close>

record vertex_input =
  position :: vec3
  instanceMatrix :: mat4
  aBladeHeight :: real
  aStiffness :: real
  aPhaseOffset :: real

text \<open>
  The values of the locals of \<open>main\<close> when it ends. \<open>rawWindIntensity\<close> is the local
  \<open>windIntensity\<close> right after its initialiser; in the rich shader \<open>stiffWindIntensity\<close>
  is the same local after \<open>windIntensity *= (1.0 / aStiffness)\<close>. \<open>worldPos\<close> is the
  displaced position that \<open>gl_Position\<close> projects with the camera matrices.
\<close>

record vertex_locals =
  vColor :: vec3
  windTime :: real
  noise1 :: real
  noise2 :: real
  heightFactor :: real
  windVector :: vec3
  rawWindIntensity :: real
  sway :: real
  worldPos :: vec4

record rich_vertex_locals = vertex_locals +
  noise3 :: real
  spatialWave :: real
  gust :: real
  individualPhase :: real
  stiffWindIntensity :: real

definition main_rich :: "rich_uniforms \<Rightarrow> vertex_input \<Rightarrow> rich_vertex_locals option" where
  "main_rich u a =
     (case (position a, instanceMatrix a) of
        ((positionx, positiony, positionz), (m0, m1, m2, (instancePosx, instancePosy, instancePosz, m3w))) \<Rightarrow>
     do {
       t \<leftarrow> gl_div positiony (aBladeHeight a);
       let vColor = mix3 (uColorBottom u) (uColorTop u) t;
       let windTime = uTime u * uWindSpeed u;
       noise1 \<leftarrow> snoise (instancePosx * 0.15, instancePosz * 0.15, windTime * 0.3);
       noise2 \<leftarrow> snoise (instancePosx * 0.1, instancePosz * 0.1, windTime * 0.2);
       noise3 \<leftarrow> snoise (instancePosx * 0.05, instancePosz * 0.05, windTime * 0.1);
       heightRatio \<leftarrow> gl_div (aBladeHeight a) (uBladeHeight u);
       let scaledPositiony = positiony * heightRatio;
       q \<leftarrow> gl_div scaledPositiony (aBladeHeight a);
       heightFactor \<leftarrow> gl_pow q 2.0;
       windVector \<leftarrow> normalize (uWindDirection u);
       let spatialWave = sin (instancePosx * uWavePropagation u +
                              instancePosz * uWavePropagation u +
                              windTime * 0.5) * 0.5 + 0.5;
       let gustTime = windTime * uGustFrequency u;
       g \<leftarrow> gl_pow (sin gustTime * 0.5 + 0.5) 3.0;
       let gust = g * uGustIntensity u;
       let individualPhase = sin (windTime * 0.7 + aPhaseOffset a) * uMicroMovement u;
       let windIntensity0 = (
             sin (windTime + noise1 * 2.0 + instancePosx * 0.01) * 0.5 +
             cos (windTime * 0.5 + noise2 * 2.0 + instancePosz * 0.01) * 0.3 +
             sin (windTime * 0.2 + noise3 * 1.0) * 0.2 +
             gust +
             spatialWave * 0.3 +
             individualPhase
           ) * uWindTurbulence u * uWindIntensity u;
       r \<leftarrow> gl_div 1.0 (aStiffness a);
       let windIntensity1 = windIntensity0 * r;
       let sway = windIntensity1 * heightFactor * (1.0 + uWindNoiseFactor u * (noise1 + noise2));
       let worldPos = mat4_mul (instanceMatrix a) (positionx, scaledPositiony, positionz, 1.0);
       let worldPos = (case (worldPos, windVector) of ((wx, wy, wz, ww), (dx, dy, dz)) \<Rightarrow>
                         (wx + dx * sway * 2.0, wy + \<bar>sway\<bar> * 0.1 * scaledPositiony,
                          wz + dz * sway * 2.0, ww));
       Some \<lparr>vColor = vColor, windTime = windTime, noise1 = noise1, noise2 = noise2,
             heightFactor = heightFactor, windVector = windVector,
             rawWindIntensity = windIntensity0, sway = sway, worldPos = worldPos,
             noise3 = noise3, spatialWave = spatialWave, gust = gust,
             individualPhase = individualPhase, stiffWindIntensity = windIntensity1\<rparr>
     })"

definition main_simple :: "simple_uniforms \<Rightarrow> vertex_input \<Rightarrow> vertex_locals option" where
  "main_simple u a =
     (case (position a, instanceMatrix a) of
        ((positionx, positiony, positionz), (m0, m1, m2, (instancePosx, instancePosy, instancePosz, m3w))) \<Rightarrow>
     do {
       t \<leftarrow> gl_div positiony (uBladeHeight u);
       let vColor = mix3 (uColorBottom u) (uColorTop u) t;
       let windTime = uTime u * uWindSpeed u;
       noise1 \<leftarrow> snoise (instancePosx * 0.15, instancePosz * 0.15, windTime * 0.3);
       noise2 \<leftarrow> snoise (instancePosx * 0.1, instancePosz * 0.1, windTime * 0.2);
       q \<leftarrow> gl_div positiony (uBladeHeight u);
       heightFactor \<leftarrow> gl_pow q 1.5;
       windVector \<leftarrow> normalize (uWindDirection u);
       let windIntensity0 = (
             sin (windTime + noise1 * 2.0) * 0.7 +
             cos (windTime * 1.5 + noise2 * 2.0) * 0.5
           ) * uWindTurbulence u * uWindIntensity u;
       let sway = windIntensity0 * heightFactor * (1.0 + uWindNoiseFactor u * (noise1 + noise2));
       let worldPos = mat4_mul (instanceMatrix a) (positionx, positiony, positionz, 1.0);
       let worldPos = (case (worldPos, windVector) of ((wx, wy, wz, ww), (dx, dy, dz)) \<Rightarrow>
                         (wx + dx * sway * 2.0, wy, wz + dz * sway * 2.0, ww));
       Some \<lparr>vColor = vColor, windTime = windTime, noise1 = noise1, noise2 = noise2,
             heightFactor = heightFactor, windVector = windVector,
             rawWindIntensity = windIntensity0, sway = sway, worldPos = worldPos\<rparr>
     })"

subsection \<open>The wind signal as the specification words it\<close>

text \<open>
  Steps 5 to 8 of the specification's Wind Animation Model, written from its sentences,
  for comparison with the shaders. An omitted \<open>noise3\<close> term is \<open>None\<close>.
\<close>

definition spec_spatialWave :: "real \<Rightarrow> real \<Rightarrow> real \<Rightarrow> real \<Rightarrow> real" where
  "spec_spatialWave worldX worldZ waveRate time =
     sin (worldX * waveRate + worldZ * waveRate + time * 0.5) * 0.5 + 0.5"

definition spec_gust :: "real \<Rightarrow> real \<Rightarrow> real \<Rightarrow> real" where
  "spec_gust time gustFrequency gustIntensity =
     (sin (time * gustFrequency) * 0.5 + 0.5) ^ 3 * gustIntensity"

definition spec_individualPhase :: "real \<Rightarrow> real \<Rightarrow> real \<Rightarrow> real" where
  "spec_individualPhase time phaseOffset amplitude = sin (time * 0.7 + phaseOffset) * amplitude"

definition spec_windSignal ::
  "real \<Rightarrow> real \<Rightarrow> real \<Rightarrow> real option \<Rightarrow> real \<Rightarrow> real \<Rightarrow> real \<Rightarrow> real \<Rightarrow> real \<Rightarrow> real \<Rightarrow> real \<Rightarrow> real" where
  "spec_windSignal time n1 n2 n3 worldX worldZ gustTerm waveTerm phaseTerm turbulence intensity =
     (sin (time + n1 * 2 + worldX * 0.01) * 0.5 +
      cos (time * 0.5 + n2 * 2 + worldZ * 0.01) * 0.3 +
      (case n3 of None \<Rightarrow> 0 | Some n \<Rightarrow> sin (time * 0.2 + n) * 0.2) +
      gustTerm + waveTerm * 0.3 + phaseTerm) * (turbulence * intensity)"

subsection \<open>Sample vertices\<close>

text \<open>A tip vertex of the default blade on an instance at the origin, unrotated.\<close>

definition tipVertex :: vertex_input where
  "tipVertex =
     \<lparr>position = (1 / 4, 15, 0),
      instanceMatrix = ((1, 0, 0, 0), (0, 1, 0, 0), (0, 0, 1, 0), (0, 0, 0, 1)),
      aBladeHeight = 15, aStiffness = 1, aPhaseOffset = 0\<rparr>"

definition baseVertex :: vertex_input where
  "baseVertex = tipVertex\<lparr>position := (- (1 / 4), 0, 0)\<rparr>"

section \<open>Basic facts about typed arrays and loops\<close>

declare forLoop.simps [simp del]

lemma length_ta_set [simp]: "length (ta_set a i v) = length a"
  by (simp add: ta_set_def)

lemma nth_ta_set:
  "ta_set a i v ! j = (if 0 \<le> i \<and> i < int (length a) \<and> nat i = j then v else a ! j)"
  by (auto simp: ta_set_def)



lemma newTypedArray_nonneg: "0 \<le> n \<Longrightarrow> newTypedArray n = Inr (replicate (nat n) 0)"
  by (simp add: newTypedArray_def)


lemma forLoop_done: "n \<le> i \<Longrightarrow> forLoop i n body s = s"
  by (subst forLoop.simps) simp

lemma forLoop_step: "i < n \<Longrightarrow> forLoop i n body s = forLoop (i + 1) n body (body i s)"
  by (subst forLoop.simps) simp

lemma forLoop_invariant:
  assumes "P i s" and "i \<le> n"
    and "\<And>j s. i \<le> j \<Longrightarrow> j < n \<Longrightarrow> P j s \<Longrightarrow> P (j + 1) (body j s)"
  shows "P n (forLoop i n body s)"
  using assms
proof (induction i n body s rule: forLoop.induct)
  case (1 i n body s)
  show ?case
  proof (cases "i < n")
    case True
    have "P n (forLoop (i + 1) n body (body i s))"
    proof (rule "1.IH" [OF True])
      show "P (i + 1) (body i s)" using "1.prems"(3) [of i s] True "1.prems"(1) by simp
      show "i + 1 \<le> n" using True by simp
      show "\<And>j s. i + 1 \<le> j \<Longrightarrow> j < n \<Longrightarrow> P j s \<Longrightarrow> P (j + 1) (body j s)"
        using "1.prems"(3) by simp
    qed
    then show ?thesis using True by (simp add: forLoop_step)
  next
    case False
    then have "i = n" using "1.prems"(2) by simp
    then show ?thesis using "1.prems"(1) by (simp add: forLoop_done)
  qed
qed


section \<open>Facts about the blade geometry\<close>



lemma strip3: "generateBladeIndices_simple 3 = Inr [0, 1, 3, 0, 3, 4, 1, 2, 4, 1, 4, 5]"
  apply (simp add: generateBladeIndices_simple_def newTypedArray_def bindE_def forLoop.simps)
  apply (simp add: ta_set_def toUint32_def eval_nat_numeral)
  done

lemma ta_set_in: "0 \<le> i \<Longrightarrow> i < int (length a) \<Longrightarrow> ta_set a i v = a[nat i := v]"
  by (simp add: ta_set_def)

lemma length_baseTip [simp]: "length (baseTip w y n vs) = length vs"
  by (simp add: baseTip_def)

lemma baseTip_update:
  assumes "2 \<le> n" "length vs = nat (n * 3)"
  shows "baseTip w y n vs =
           vs[0 := - w / 2, 1 := 0, 2 := 0, length vs - 3 := w / 2, length vs - 2 := y,
              length vs - 1 := 0]"
proof -
  have a: "nat ((n - 1) * 3) = length vs - 3" "nat ((n - 1) * 3 + 1) = length vs - 2"
    "nat ((n - 1) * 3 + 2) = length vs - 1"
    using assms by auto
  have b: "0 \<le> (n - 1) * 3" "(n - 1) * 3 + 2 < int (length vs)" "2 < length vs" "vs \<noteq> []"
    using assms by auto
  show ?thesis
    unfolding baseTip_def using a b by (simp add: ta_set_def)
qed

lemma baseTip_base_and_tip:
  assumes "2 \<le> n" "length vs = nat (n * 3)"
  shows "base_and_tip (baseTip w y n vs) = ((- w / 2, 0, 0), (w / 2, y, 0))"
proof -
  have l: "6 \<le> length vs" "vs \<noteq> []" using assms by auto
  show ?thesis
    unfolding base_and_tip_def using l
    by (simp add: baseTip_update [OF assms] nth_list_update)
qed

lemma ta_set3_nth:
  "i \<noteq> int m \<Longrightarrow> i + 1 \<noteq> int m \<Longrightarrow> i + 2 \<noteq> int m \<Longrightarrow>
     ta_set (ta_set (ta_set vs i a) (i + 1) b) (i + 2) c ! m = vs ! m"
  by (auto simp: nth_ta_set)

text \<open>The loop over the middle vertices writes neither the base nor the tip triple.\<close>

lemma middle_keeps_base_and_tip:
  assumes step: "\<And>j vs k. 1 \<le> j \<Longrightarrow> j < n - 1 \<Longrightarrow>
      \<exists>a b c k'. body j (vs, k) =
        (ta_set (ta_set (ta_set vs (j * 3) a) (j * 3 + 1) b) (j * 3 + 2) c, k')"
    and n2: "2 \<le> n" and len0: "length vs0 = nat (n * 3)"
  shows "length (fst (forLoop 1 (n - 1) body (vs0, k0))) = nat (n * 3) \<and>
         base_and_tip (fst (forLoop 1 (n - 1) body (vs0, k0))) = base_and_tip vs0"
proof -
  let ?P = "\<lambda>(j::int) s. length (fst s) = nat (n * 3) \<and> base_and_tip (fst s) = base_and_tip vs0"
  have L: "int (nat (n * 3) - 3) = n * 3 - 3" "int (nat (n * 3) - 2) = n * 3 - 2"
    "int (nat (n * 3) - 1) = n * 3 - 1"
    using n2 by auto
  have "?P (n - 1) (forLoop 1 (n - 1) body (vs0, k0))"
  proof (rule forLoop_invariant [where P = ?P])
    show "?P 1 (vs0, k0)" using len0 by simp
    show "1 \<le> n - 1" using n2 by simp
    show "?P (j + 1) (body j s)" if j1: "1 \<le> j" and j2: "j < n - 1" and inv: "?P j s" for j s
    proof -
      obtain vs k where s: "s = (vs, k)" by (cases s)
      obtain a b c k' where b: "body j (vs, k) =
          (ta_set (ta_set (ta_set vs (j * 3) a) (j * 3 + 1) b) (j * 3 + 2) c, k')"
        using step [OF j1 j2] by blast
      let ?vs' = "ta_set (ta_set (ta_set vs (j * 3) a) (j * 3 + 1) b) (j * 3 + 2) c"
      have len: "length vs = nat (n * 3)" using inv s by simp
      have keep: "?vs' ! m = vs ! m" if "int m < 3 \<or> n * 3 - 3 \<le> int m" for m
        using that j1 j2 by (intro ta_set3_nth) linarith+
      have "?vs' ! 0 = vs ! 0" "?vs' ! 1 = vs ! 1" "?vs' ! 2 = vs ! 2"
        by (rule keep, simp)+
      moreover have "?vs' ! (nat (n * 3) - 3) = vs ! (nat (n * 3) - 3)"
        "?vs' ! (nat (n * 3) - 2) = vs ! (nat (n * 3) - 2)"
        "?vs' ! (nat (n * 3) - 1) = vs ! (nat (n * 3) - 1)"
        by (rule keep, simp only: L, simp)+
      ultimately have "base_and_tip ?vs' = base_and_tip vs"
        unfolding base_and_tip_def by (simp add: len)
      then show ?thesis using inv s b by simp
    qed
  qed
  then show ?thesis by simp
qed

text \<open>Each middle-vertex loop writes one triple and draws two random numbers.\<close>

lemma middle_counter:
  assumes step: "\<And>j vs k. \<exists>vs'. body j (vs, k) = (vs', k + 2)"
    and n2: "2 \<le> n"
  shows "snd (forLoop 1 (n - 1) body (vs0, k0)) = k0 + 2 * nat (n - 2)"
proof -
  let ?P = "\<lambda>(j::int) (s :: 'a \<times> nat). snd s = k0 + 2 * nat (j - 1)"
  have "?P (n - 1) (forLoop 1 (n - 1) body (vs0, k0))"
  proof (rule forLoop_invariant [where P = ?P])
    show "?P 1 (vs0, k0)" by simp
    show "1 \<le> n - 1" using n2 by simp
    show "?P (j + 1) (body j s)" if j1: "1 \<le> j" and j2: "j < n - 1" and inv: "?P j s" for j s
    proof -
      obtain vs k where s: "s = (vs, k)" by (cases s)
      obtain vs' where "body j (vs, k) = (vs', k + 2)" using step by blast
      moreover have "nat j = Suc (nat (j - 1))" using j1 by simp
      ultimately show ?thesis using inv s by simp
    qed
  qed
  then show ?thesis by (simp add: algebra_simps)
qed


lemma generateBladeVertices_simple_base_tip:
  assumes "2 \<le> n"
  shows "\<exists>vs. generateBladeVertices_simple rnd k h w n = Inr (vs, k + 2 * nat (n - 2)) \<and>
           length vs = nat (n * 3) \<and>
           base_and_tip vs = ((- w / 2, 0, 0), (w / 2, h, 0))"
proof -
  let ?z = "replicate (nat (n * 3)) (0::real)"
  let ?r = "middleVertices_simple rnd h w n (baseTip w h n ?z, k)"
  have eq: "generateBladeVertices_simple rnd k h w n = Inr ?r"
    using assms
    by (simp add: generateBladeVertices_simple_def newTypedArray_nonneg bindE_def baseTip_def
        Let_def)
  have "length (fst ?r) = nat (n * 3) \<and>
        base_and_tip (fst ?r) = base_and_tip (baseTip w h n ?z)"
    unfolding middleVertices_simple_def
  proof (rule middle_keeps_base_and_tip)
    show "\<exists>a b c k'. (\<lambda>i (vertices, k).
       let t = real_of_int i / real_of_int (n - 1);
           curveFactor = sin (pi * t) * h * 0.2;
           vertices = ta_set vertices (i * 3) ((rnd k - 0.5) * w * (1 - \<bar>t - 0.5\<bar> * 2));
           vertices = ta_set vertices (i * 3 + 1) (t * h + curveFactor);
           vertices = ta_set vertices (i * 3 + 2) ((rnd (k + 1) - 0.5) * 0.05)
       in (vertices, k + 2)) j (vs, k) =
        (ta_set (ta_set (ta_set vs (j * 3) a) (j * 3 + 1) b) (j * 3 + 2) c, k')" for j vs k
      unfolding Let_def prod.case by (intro exI) (rule refl)
  qed (use assms in simp_all)
  then have a: "length (fst ?r) = nat (n * 3)"
    "base_and_tip (fst ?r) = ((- w / 2, 0, 0), (w / 2, h, 0))"
    using baseTip_base_and_tip [OF assms, of ?z w h] by simp_all
  have "snd ?r = k + 2 * nat (n - 2)"
    unfolding middleVertices_simple_def
  proof (rule middle_counter)
    show "\<exists>vs'. (\<lambda>i (vertices, k).
       let t = real_of_int i / real_of_int (n - 1);
           curveFactor = sin (pi * t) * h * 0.2;
           vertices = ta_set vertices (i * 3) ((rnd k - 0.5) * w * (1 - \<bar>t - 0.5\<bar> * 2));
           vertices = ta_set vertices (i * 3 + 1) (t * h + curveFactor);
           vertices = ta_set vertices (i * 3 + 2) ((rnd (k + 1) - 0.5) * 0.05)
       in (vertices, k + 2)) j (vs, k) = (vs', k + 2)" for j vs k
      unfolding Let_def prod.case by (intro exI) (rule refl)
  qed (rule assms)
  then have "?r = (fst ?r, k + 2 * nat (n - 2))" by (metis prod.collapse)
  then show ?thesis
    using a eq by (intro exI [of _ "fst ?r"]) simp
qed



section \<open>Facts about the loops over the instances and about \<open>createGrassMesh\<close>\<close>


























section \<open>Facts about the vertex shaders\<close>

lemma h_parity:
  fixes a b c :: int
  shows "1 - \<bar>real_of_int a * (2 / 7) + real_of_int c\<bar> - \<bar>real_of_int b * (2 / 7) + real_of_int c\<bar> \<noteq> 0"
proof
  assume "1 - \<bar>real_of_int a * (2 / 7) + real_of_int c\<bar> -
      \<bar>real_of_int b * (2 / 7) + real_of_int c\<bar> = 0"
  then have "7 * (\<bar>real_of_int a * (2 / 7) + real_of_int c\<bar> +
      \<bar>real_of_int b * (2 / 7) + real_of_int c\<bar>) = 7" by simp
  moreover have "7 * \<bar>real_of_int a * (2 / 7) + real_of_int c\<bar> = real_of_int \<bar>2 * a + 7 * c\<bar>"
    by (simp add: abs_if)
  moreover have "7 * \<bar>real_of_int b * (2 / 7) + real_of_int c\<bar> = real_of_int \<bar>2 * b + 7 * c\<bar>"
    by (simp add: abs_if)
  ultimately have "real_of_int (\<bar>2 * a + 7 * c\<bar> + \<bar>2 * b + 7 * c\<bar>) = real_of_int 7"
    by (simp add: algebra_simps)
  then have "\<bar>2 * a + 7 * c\<bar> + \<bar>2 * b + 7 * c\<bar> = 7" by (simp only: of_int_eq_iff)
  then show False by presburger
qed

lemma h_parity_gl:
  assumes "k = 2 / 7" "c = real_of_int ci"
  shows "1 - \<bar>gl_floor s * k + c\<bar> - \<bar>gl_floor t * k + c\<bar> \<noteq> 0"
  unfolding assms gl_floor_def by (rule h_parity)

lemma snoise_lattice_h:
  "case snoise_lattice p of (x, y, hx, hy, hz, hw) \<Rightarrow> hx \<noteq> 0 \<and> hy \<noteq> 0 \<and> hz \<noteq> 0 \<and> hw \<noteq> 0"
  apply (simp only: snoise_lattice_def Let_def map4_def zip4_def map3_def zip3_def splat4_def
      prod.case fst_conv snd_conv case_prod_beta)
  apply (intro conjI)
     apply (rule h_parity_gl [where ci = 0], simp, simp)
    apply (rule h_parity_gl [where ci = 1], simp, simp)
   apply (rule h_parity_gl [where ci = 2], simp, simp)
  apply (rule h_parity_gl [where ci = 3], simp, simp)
  done

lemma snoise_gradients_third:
  "case snoise_gradients x y (hx, hy, hz, hw) of
     (p0, p1, p2, p3) \<Rightarrow>
       snd (snd p0) = hx \<and> snd (snd p1) = hy \<and> snd (snd p2) = hz \<and> snd (snd p3) = hw"
  by (cases x; cases y)
     (simp add: snoise_gradients_def Let_def map4_def zip4_def)

lemma inversesqrt_dot3:
  assumes "snd (snd p) \<noteq> 0"
  shows "\<exists>n. inversesqrt (dot3 p p) = Some n"
proof -
  obtain a b c where p: "p = (a, b, c)" by (cases p)
  have "c \<noteq> 0" using assms p by simp
  then have "0 < c * c" by (cases "0 < c") (auto simp: zero_less_mult_iff)
  moreover have "0 \<le> a * a" "0 \<le> b * b" by simp_all
  ultimately have "0 < a * a + b * b + c * c" by linarith
  then show ?thesis by (simp add: p dot3_def inversesqrt_def)
qed

lemma snoise_sum_defined:
  assumes "snd (snd p0) \<noteq> 0" "snd (snd p1) \<noteq> 0" "snd (snd p2) \<noteq> 0" "snd (snd p3) \<noteq> 0"
  shows "\<exists>r. snoise_sum x0 x1 x2 x3 p0 p1 p2 p3 = Some r"
proof -
  obtain n0 n1 n2 n3 where "inversesqrt (dot3 p0 p0) = Some n0"
    "inversesqrt (dot3 p1 p1) = Some n1" "inversesqrt (dot3 p2 p2) = Some n2"
    "inversesqrt (dot3 p3 p3) = Some n3"
    using assms inversesqrt_dot3 by meson
  then show ?thesis by (simp add: snoise_sum_def Let_def)
qed

lemma snoise_defined: "\<exists>r. snoise v = Some r"
proof -
  have "\<exists>r. (case snoise_lattice p of
           (x, y, h) \<Rightarrow>
             (case snoise_gradients x y h of
                (p0, p1, p2, p3) \<Rightarrow> snoise_sum x0 x1 x2 x3 p0 p1 p2 p3)) = Some r"
    for p x0 x1 x2 x3
  proof -
    obtain x y hx hy hz hw where l: "snoise_lattice p = (x, y, hx, hy, hz, hw)"
      by (metis prod_cases4 prod_cases3)
    have h: "hx \<noteq> 0" "hy \<noteq> 0" "hz \<noteq> 0" "hw \<noteq> 0"
      using snoise_lattice_h [of p] l by simp_all
    obtain p0 p1 p2 p3 where g: "snoise_gradients x y (hx, hy, hz, hw) = (p0, p1, p2, p3)"
      by (metis prod_cases4)
    have "snd (snd p0) \<noteq> 0" "snd (snd p1) \<noteq> 0" "snd (snd p2) \<noteq> 0" "snd (snd p3) \<noteq> 0"
      using snoise_gradients_third [where x = x and y = y and hx = hx and hy = hy and hz = hz
          and hw = hw] g h
      by simp_all
    then show ?thesis using snoise_sum_defined l g by simp
  qed
  then show ?thesis by (simp add: snoise_def Let_def)
qed

lemma gl_div_Some: "gl_div x y = Some z \<longleftrightarrow> y \<noteq> 0 \<and> z = x / y"
  by (auto simp: gl_div_def)

lemma gl_pow_Some: "gl_pow x y = Some z \<longleftrightarrow> \<not> (x < 0 \<or> (x = 0 \<and> y \<le> 0)) \<and> z = x powr y"
  by (auto simp: gl_pow_def)

lemma normalize_Some:
  "normalize v = Some w \<longleftrightarrow> v \<noteq> (0, 0, 0) \<and> w = map3 (\<lambda>c. c * (1 / sqrt (dot3 v v))) v"
proof -
  obtain a b c where v: "v = (a, b, c)" by (cases v)
  have "a * a + b * b + c * c \<le> 0 \<longleftrightarrow> a = 0 \<and> b = 0 \<and> c = 0"
  proof
    assume le: "a * a + b * b + c * c \<le> 0"
    have "0 \<le> a * a" "0 \<le> b * b" "0 \<le> c * c" by simp_all
    then have "a * a = 0" "b * b = 0" "c * c = 0" using le by linarith+
    then show "a = 0 \<and> b = 0 \<and> c = 0" by simp
  qed simp
  then show ?thesis
    by (auto simp: v normalize_def inversesqrt_def dot3_def)
qed

lemma gust_base_nonneg: "0 \<le> sin x * 0.5 + (0.5::real)"
proof -
  have "- 1 \<le> sin x" by simp
  then show ?thesis by linarith
qed

text \<open>The locals of the rich shader, when \<open>main\<close> is defined.\<close>

lemma main_rich_Some:
  assumes "main_rich u a = Some r"
    and "position a = (px, py, pz)" and "instanceMatrix a = (m0, m1, m2, (ix, iy, iz, iw))"
  shows "aBladeHeight a \<noteq> 0 \<and> uBladeHeight u \<noteq> 0 \<and> aStiffness a \<noteq> 0 \<and>
         uWindDirection u \<noteq> (0, 0, 0) \<and>
         0 \<le> py * (aBladeHeight a / uBladeHeight u) / aBladeHeight a \<and>
         windTime r = uTime u * uWindSpeed u \<and>
         snoise (ix * 0.15, iz * 0.15, windTime r * 0.3) = Some (noise1 r) \<and>
         snoise (ix * 0.1, iz * 0.1, windTime r * 0.2) = Some (noise2 r) \<and>
         snoise (ix * 0.05, iz * 0.05, windTime r * 0.1) = Some (noise3 r) \<and>
         heightFactor r = (py * (aBladeHeight a / uBladeHeight u) / aBladeHeight a) powr 2 \<and>
         spatialWave r = sin (ix * uWavePropagation u + iz * uWavePropagation u +
                              windTime r * 0.5) * 0.5 + 0.5 \<and>
         gust r = (sin (windTime r * uGustFrequency u) * 0.5 + 0.5) powr 3 * uGustIntensity u \<and>
         individualPhase r = sin (windTime r * 0.7 + aPhaseOffset a) * uMicroMovement u \<and>
         rawWindIntensity r =
           (sin (windTime r + noise1 r * 2 + ix * 0.01) * 0.5 +
            cos (windTime r * 0.5 + noise2 r * 2 + iz * 0.01) * 0.3 +
            sin (windTime r * 0.2 + noise3 r * 1) * 0.2 +
            gust r + spatialWave r * 0.3 + individualPhase r) *
           uWindTurbulence u * uWindIntensity u \<and>
         stiffWindIntensity r = rawWindIntensity r * (1 / aStiffness a) \<and>
         sway r = stiffWindIntensity r * heightFactor r *
                    (1 + uWindNoiseFactor u * (noise1 r + noise2 r))"
  using assms(1)
  unfolding main_rich_def assms(2,3) prod.case Let_def
  by (auto simp: bind_eq_Some_conv gl_div_Some gl_pow_Some normalize_Some)

lemma main_simple_Some:
  assumes "main_simple u a = Some r"
    and "position a = (px, py, pz)" and "instanceMatrix a = (m0, m1, m2, (ix, iy, iz, iw))"
  shows "uBladeHeight u \<noteq> 0 \<and> uWindDirection u \<noteq> (0, 0, 0) \<and> 0 \<le> py / uBladeHeight u \<and>
         windTime r = uTime u * uWindSpeed u \<and>
         snoise (ix * 0.15, iz * 0.15, windTime r * 0.3) = Some (noise1 r) \<and>
         snoise (ix * 0.1, iz * 0.1, windTime r * 0.2) = Some (noise2 r) \<and>
         heightFactor r = (py / uBladeHeight u) powr 1.5 \<and>
         rawWindIntensity r =
           (sin (windTime r + noise1 r * 2) * 0.7 + cos (windTime r * 1.5 + noise2 r * 2) * 0.5) *
           uWindTurbulence u * uWindIntensity u \<and>
         sway r = rawWindIntensity r * heightFactor r *
                    (1 + uWindNoiseFactor u * (noise1 r + noise2 r))"
  using assms(1)
  unfolding main_simple_def assms(2,3) prod.case Let_def
  by (auto simp: bind_eq_Some_conv gl_div_Some gl_pow_Some normalize_Some)

lemma main_rich_defined:
  assumes "position a = (px, py, pz)"
    and "aBladeHeight a \<noteq> 0" "uBladeHeight u \<noteq> 0" "aStiffness a \<noteq> 0"
    and "uWindDirection u \<noteq> (0, 0, 0)"
    and "0 \<le> py * (aBladeHeight a / uBladeHeight u) / aBladeHeight a"
  shows "\<exists>r. main_rich u a = Some r"
proof -
  obtain m0 m1 m2 ix iy iz iw where m: "instanceMatrix a = (m0, m1, m2, (ix, iy, iz, iw))"
    by (metis prod_cases4)
  obtain n1 where n1: "snoise (ix * 0.15, iz * 0.15, uTime u * uWindSpeed u * 0.3) = Some n1"
    using snoise_defined by blast
  obtain n2 where n2: "snoise (ix * 0.1, iz * 0.1, uTime u * uWindSpeed u * 0.2) = Some n2"
    using snoise_defined by blast
  obtain n3 where n3: "snoise (ix * 0.05, iz * 0.05, uTime u * uWindSpeed u * 0.1) = Some n3"
    using snoise_defined by blast
  obtain w where w: "normalize (uWindDirection u) = Some w"
    using assms(5) by (simp add: normalize_Some)
  have g: "gl_pow (sin (uTime u * uWindSpeed u * uGustFrequency u) * 0.5 + 0.5) 3.0 =
      Some ((sin (uTime u * uWindSpeed u * uGustFrequency u) * 0.5 + 0.5) powr 3)"
    using gust_base_nonneg [of "uTime u * uWindSpeed u * uGustFrequency u"]
    by (simp add: gl_pow_def)
  have h: "gl_pow (py * (aBladeHeight a / uBladeHeight u) / aBladeHeight a) 2.0 =
      Some ((py * (aBladeHeight a / uBladeHeight u) / aBladeHeight a) powr 2)"
    using assms(6) by (simp add: gl_pow_def)
  show ?thesis
    unfolding main_rich_def assms(1) m prod.case Let_def
    using assms(2-4) n1 n2 n3 w g h by (simp add: gl_div_def)
qed

lemma main_simple_defined:
  assumes "position a = (px, py, pz)"
    and "uBladeHeight u \<noteq> 0" "uWindDirection u \<noteq> (0, 0, 0)" "0 \<le> py / uBladeHeight u"
  shows "\<exists>r. main_simple u a = Some r"
proof -
  obtain m0 m1 m2 ix iy iz iw where m: "instanceMatrix a = (m0, m1, m2, (ix, iy, iz, iw))"
    by (metis prod_cases4)
  obtain n1 where n1: "snoise (ix * 0.15, iz * 0.15, uTime u * uWindSpeed u * 0.3) = Some n1"
    using snoise_defined by blast
  obtain n2 where n2: "snoise (ix * 0.1, iz * 0.1, uTime u * uWindSpeed u * 0.2) = Some n2"
    using snoise_defined by blast
  obtain w where w: "normalize (uWindDirection u) = Some w"
    using assms(3) by (simp add: normalize_Some)
  have h: "gl_pow (py / uBladeHeight u) 1.5 = Some ((py / uBladeHeight u) powr 1.5)"
    using assms(4) by (simp add: gl_pow_def)
  show ?thesis
    unfolding main_simple_def assms(1) m prod.case Let_def
    using assms(2) n1 n2 w h by (simp add: gl_div_def)
qed

lemma main_rich_defined_iff:
  assumes "position a = (px, py, pz)"
  shows "(\<exists>r. main_rich u a = Some r) =
     (aBladeHeight a \<noteq> 0 \<and> uBladeHeight u \<noteq> 0 \<and> aStiffness a \<noteq> 0 \<and>
      uWindDirection u \<noteq> (0, 0, 0) \<and>
      0 \<le> py * (aBladeHeight a / uBladeHeight u) / aBladeHeight a)"
proof -
  obtain m0 m1 m2 ix iy iz iw where m: "instanceMatrix a = (m0, m1, m2, (ix, iy, iz, iw))"
    by (metis prod_cases4)
  show ?thesis
    using main_rich_Some [OF _ assms m, of u] main_rich_defined [OF assms, of u] by blast
qed

lemma main_simple_defined_iff:
  assumes "position a = (px, py, pz)"
  shows "(\<exists>r. main_simple u a = Some r) =
     (uBladeHeight u \<noteq> 0 \<and> uWindDirection u \<noteq> (0, 0, 0) \<and> 0 \<le> py / uBladeHeight u)"
proof -
  obtain m0 m1 m2 ix iy iz iw where m: "instanceMatrix a = (m0, m1, m2, (ix, iy, iz, iw))"
    by (metis prod_cases4)
  show ?thesis
    using main_simple_Some [OF _ assms m, of u] main_simple_defined [OF assms, of u] by blast
qed

lemma sqrt9: "sqrt 9 = 3"
  by (rule real_sqrt_unique) simp_all

lemma lattice_origin:
  "snoise_lattice (0, 0, 2, 2) = ((0, 1, 2, 3), (0, 1, 18 / 7, 25 / 7), (1, - 1, - (25 / 7), - (39 / 7)))"
  by (simp add: snoise_lattice_def Let_def map4_def zip4_def map3_def zip3_def splat4_def
      gl_floor_def)


lemma gradients_origin:
  "snoise_gradients (0, 1, 2, 3) (0, 1, 18 / 7, 25 / 7) (1, - 1, - (25 / 7), - (39 / 7)) =
     ((0, 0, 1), (- 2, - 2, - 1), (- 3, - (17 / 7), - (25 / 7)), (- 4, - (24 / 7), - (39 / 7)))"
  by (simp add: snoise_gradients_def Let_def map4_def zip4_def gl_floor_def gl_step_def)

lemma sum_origin:
  "snoise_sum (0, 0, 0) (1 / 6, 1 / 6, 1 / 6) (- (2 / 3), - (2 / 3), - (2 / 3))
     (- (1 / 2), - (1 / 2), - (1 / 2))
     (0, 0, 1) (- 2, - 2, - 1) (- 3, - (17 / 7), - (25 / 7)) (- 4, - (24 / 7), - (39 / 7)) =
   Some (- (6464647 / 7776000))"
  by (simp add: snoise_sum_def Let_def map4_def zip4_def map3_def dot3_def dot4_def
      inversesqrt_def sqrt9 power2_eq_square)

lemma snoise_origin: "snoise (0, 0, 0) = Some (- (6464647 / 7776000))"
  by (simp add: snoise_def Let_def map3_def zip3_def map4_def zip4_def splat3_def dot3_def
      gl_floor_def gl_step_def gl_mod_def lattice_origin gradients_origin sum_origin)

lemma sin_plus_cos_negative:
  fixes x :: real
  assumes "- (5 / 2) < x" "x < - 1"
  shows "sin x + cos x < 0"
proof -
  have "0 < - (x + pi / 4)" using assms(2) pi_less_4 by linarith
  moreover have "- (x + pi / 4) < pi" using assms(1) pi_ge_two by linarith
  ultimately have "0 < sin (- (x + pi / 4))" by (rule sin_gt_zero)
  moreover have "sin (- (x + pi / 4)) = - sin (x + pi / 4)" by (rule sin_minus)
  ultimately have "sin (x + pi / 4) < 0" by linarith
  moreover have "sin (x + pi / 4) = (sin x + cos x) * (sqrt 2 / 2)"
    by (simp add: sin_add sin_45 cos_45 algebra_simps)
  ultimately have "(sin x + cos x) * (sqrt 2 / 2) < 0" by simp
  then show ?thesis by (simp add: mult_less_0_iff)
qed

lemma powr3_nonneg: "0 \<le> x \<Longrightarrow> x powr 3 = x ^ 3" for x :: real
  by simp

lemma tip_rich_defined:
  "s \<noteq> 0 \<Longrightarrow>
     \<exists>r. main_rich (grassMaterial_rich rich_defaults (1, 0, 1)) (tipVertex\<lparr>aStiffness := s\<rparr>) = Some r"
  by (rule main_rich_defined [where px = "1 / 4" and py = 15 and pz = 0])
     (simp_all add: tipVertex_def grassMaterial_rich_def rich_defaults_def)

lemma base_rich_defined:
  "s \<noteq> 0 \<Longrightarrow>
     \<exists>r. main_rich (grassMaterial_rich rich_defaults (1, 0, 1)) (baseVertex\<lparr>aStiffness := s\<rparr>) = Some r"
  by (rule main_rich_defined [where px = "- (1 / 4)" and py = 0 and pz = 0])
     (simp_all add: baseVertex_def tipVertex_def grassMaterial_rich_def rich_defaults_def)

lemma tip_simple_defined:
  "\<exists>r. main_simple (grassMaterial_simple simple_defaults (1, 0, 1)) tipVertex = Some r"
  by (rule main_simple_defined [where px = "1 / 4" and py = 15 and pz = 0])
     (simp_all add: tipVertex_def grassMaterial_simple_def simple_defaults_def)

text \<open>What the locals of the rich shader depend on, apart from the stiffness.\<close>

lemma main_rich_sway_factor:
  assumes "main_rich u (a\<lparr>aStiffness := c\<rparr>) = Some r"
    and p: "position a = (px, py, pz)"
    and m: "instanceMatrix a = (m0, m1, m2, (ix, iy, iz, iw))"
    and n: "snoise (ix * 0.15, iz * 0.15, uTime u * uWindSpeed u * 0.3) = Some n1"
      "snoise (ix * 0.1, iz * 0.1, uTime u * uWindSpeed u * 0.2) = Some n2"
      "snoise (ix * 0.05, iz * 0.05, uTime u * uWindSpeed u * 0.1) = Some n3"
  shows "sway r =
      (sin (uTime u * uWindSpeed u + n1 * 2 + ix * 0.01) * 0.5 +
       cos (uTime u * uWindSpeed u * 0.5 + n2 * 2 + iz * 0.01) * 0.3 +
       sin (uTime u * uWindSpeed u * 0.2 + n3 * 1) * 0.2 +
       (sin (uTime u * uWindSpeed u * uGustFrequency u) * 0.5 + 0.5) powr 3 * uGustIntensity u +
       (sin (ix * uWavePropagation u + iz * uWavePropagation u +
             uTime u * uWindSpeed u * 0.5) * 0.5 + 0.5) * 0.3 +
       sin (uTime u * uWindSpeed u * 0.7 + aPhaseOffset a) * uMicroMovement u) *
      uWindTurbulence u * uWindIntensity u * (1 / c) *
      (py * (aBladeHeight a / uBladeHeight u) / aBladeHeight a) powr 2 *
      (1 + uWindNoiseFactor u * (n1 + n2))"
proof -
  have p': "position (a\<lparr>aStiffness := c\<rparr>) = (px, py, pz)" using p by simp
  have m': "instanceMatrix (a\<lparr>aStiffness := c\<rparr>) = (m0, m1, m2, (ix, iy, iz, iw))"
    using m by simp
  note f = main_rich_Some [OF assms(1) p' m']
  have w: "windTime r = uTime u * uWindSpeed u" using f by blast
  have "snoise (ix * 0.15, iz * 0.15, windTime r * 0.3) = Some (noise1 r)"
    "snoise (ix * 0.1, iz * 0.1, windTime r * 0.2) = Some (noise2 r)"
    "snoise (ix * 0.05, iz * 0.05, windTime r * 0.1) = Some (noise3 r)"
    using f by blast+
  then have ns: "noise1 r = n1" "noise2 r = n2" "noise3 r = n3"
    unfolding w n by simp_all
  have hf: "heightFactor r = (py * (aBladeHeight (a\<lparr>aStiffness := c\<rparr>) / uBladeHeight u) /
      aBladeHeight (a\<lparr>aStiffness := c\<rparr>)) powr 2"
    using f by blast
  have sw: "spatialWave r = sin (ix * uWavePropagation u + iz * uWavePropagation u +
                              windTime r * 0.5) * 0.5 + 0.5"
    using f by blast
  have gu: "gust r = (sin (windTime r * uGustFrequency u) * 0.5 + 0.5) powr 3 * uGustIntensity u"
    using f by blast
  have ip: "individualPhase r =
      sin (windTime r * 0.7 + aPhaseOffset (a\<lparr>aStiffness := c\<rparr>)) * uMicroMovement u"
    using f by blast
  have raw: "rawWindIntensity r =
           (sin (windTime r + noise1 r * 2 + ix * 0.01) * 0.5 +
            cos (windTime r * 0.5 + noise2 r * 2 + iz * 0.01) * 0.3 +
            sin (windTime r * 0.2 + noise3 r * 1) * 0.2 +
            gust r + spatialWave r * 0.3 + individualPhase r) *
           uWindTurbulence u * uWindIntensity u"
    using f by blast
  have st: "stiffWindIntensity r = rawWindIntensity r * (1 / aStiffness (a\<lparr>aStiffness := c\<rparr>))"
    using f by blast
  have "sway r = stiffWindIntensity r * heightFactor r *
                    (1 + uWindNoiseFactor u * (noise1 r + noise2 r))"
    using f by blast
  then show ?thesis
    unfolding st raw gu sw ip hf ns w by simp
qed

section \<open>Claims about the blade geometry\<close>

text \<open>
  C4 (strip mode). With \<open>verticesPerBlade = 3\<close> the simple variant builds the
  \<open>(3 - 1) * 6 = 12\<close> indices \<open>0 1 3 0 3 4 1 2 4 1 4 5\<close>, while its position array holds
  exactly 3 vertices (numbers 0, 1 and 2): the indices 3, 4 and 5 name vertices that were
  never generated. The fan of the rich variant is valid (lemma
  \<open>generateBladeIndices_rich_valid\<close>) and both index counts are as stated.
\<close>

theorem strip_indices_exceed_vertex_count:
  "generateBladeIndices_simple 3 = Inr [0, 1, 3, 0, 3, 4, 1, 2, 4, 1, 4, 5] \<and>
   (\<exists>vs k'. generateBladeVertices_simple rnd k h w 3 = Inr (vs, k') \<and> vertexCountOf vs = 3)"
proof -
  obtain vs k' where "generateBladeVertices_simple rnd k h w 3 = Inr (vs, k')"
    "length vs = nat (3 * 3)"
    using generateBladeVertices_simple_base_tip [of 3 rnd k h w] by auto
  then have "\<exists>vs k'. generateBladeVertices_simple rnd k h w 3 = Inr (vs, k') \<and> vertexCountOf vs = 3"
    by (intro exI [of _ vs] exI [of _ k']) (simp add: vertexCountOf_def)
  then show ?thesis using strip3 by (rule conjI [rotated])
qed




section \<open>Claims about \<open>updateWind\<close>\<close>

text \<open>
  C2, as stated, fails: a wind parameter omitted from \<open>options\<close> does not keep the value
  its uniform had. In the simple variant a call that omits \<open>windSpeed\<close> on a field whose
  \<open>uWindSpeed\<close> is 1 leaves \<open>uWindSpeed\<close> at the destructuring default 5.5.
\<close>

theorem updateWind_resets_omitted_counterexample:
  "uWindSpeed (fst (updateWind_simple (\<lambda>_. 0) 0
       \<lparr>uTime = 0, uWindSpeed = 1, uWindDirection = (1, 0, 1), uColorBottom = (0, 0, 0),
        uColorTop = (1, 1, 1), uWindNoiseFactor = 1, uWindTurbulence = 1, uWindIntensity = 1,
        uBladeHeight = 15, uBladeWidth = 1\<rparr>
       2
       \<lparr>opt_windSpeed = None, opt_windDirection = None, opt_windIntensity = Some 1,
        opt_windTurbulence = None\<rparr>)) = 5.5 \<and>
   uWindSpeed (fst (updateWind_simple (\<lambda>_. 0) 0
       \<lparr>uTime = 0, uWindSpeed = 1, uWindDirection = (1, 0, 1), uColorBottom = (0, 0, 0),
        uColorTop = (1, 1, 1), uWindNoiseFactor = 1, uWindTurbulence = 1, uWindIntensity = 1,
        uBladeHeight = 15, uBladeWidth = 1\<rparr>
       2
       \<lparr>opt_windSpeed = None, opt_windDirection = None, opt_windIntensity = Some 1,
        opt_windTurbulence = None\<rparr>)) \<noteq>
   uWindSpeed \<lparr>uTime = 0, uWindSpeed = 1, uWindDirection = (1, 0, 1), uColorBottom = (0, 0, 0),
        uColorTop = (1, 1, 1), uWindNoiseFactor = 1, uWindTurbulence = 1, uWindIntensity = 1,
        uBladeHeight = 15, uBladeWidth = 1\<rparr>"
  by (simp add: updateWind_simple_def orDefault_def)

text \<open>
  C2, amended. After \<open>updateWind(time, options)\<close> every wind uniform holds the supplied
  value when its field is supplied and the fixed default of the destructuring pattern when
  it is omitted, whatever it held before: 5.5, (1, 0, 1), 1.0, 0.8 in the simple variant;
  3.0, (1, 0, 1), 0.5, 0.7 and the construction-time gust frequency and gust intensity in
  the rich variant. \<open>uTime\<close> is the time passed, the noise factor is
  \<open>0.5 + Math.random() * 0.5\<close>, and the colour and blade uniforms are not touched. A
  rich-variant call that returns has both \<open>microMovement\<close> and \<open>wavePropagation\<close>
  supplied and stores them.
\<close>

theorem updateWind_omitted_take_defaults:
  "(case updateWind_simple rnd k uniforms time options of (uniforms', k') \<Rightarrow>
      uTime uniforms' = time \<and>
      uWindNoiseFactor uniforms' = 0.5 + rnd k * 0.5 \<and>
      uWindSpeed uniforms' = (case opt_windSpeed options of None \<Rightarrow> 5.5 | Some v \<Rightarrow> v) \<and>
      uWindDirection uniforms' =
        (case opt_windDirection options of None \<Rightarrow> (1, 0, 1) | Some v \<Rightarrow> v) \<and>
      uWindIntensity uniforms' = (case opt_windIntensity options of None \<Rightarrow> 1 | Some v \<Rightarrow> v) \<and>
      uWindTurbulence uniforms' =
        (case opt_windTurbulence options of None \<Rightarrow> 0.8 | Some v \<Rightarrow> v) \<and>
      uColorBottom uniforms' = uColorBottom uniforms \<and>
      uColorTop uniforms' = uColorTop uniforms \<and>
      uBladeHeight uniforms' = uBladeHeight uniforms \<and>
      uBladeWidth uniforms' = uBladeWidth uniforms) \<and>
   (case updateWind_rich closure rnd k runiforms time roptions of
      Inl e \<Rightarrow> e = ReferenceError \<and>
        (opt_microMovement roptions = None \<or> opt_wavePropagation roptions = None)
    | Inr (uniforms', k') \<Rightarrow>
      uTime uniforms' = time \<and>
      uWindNoiseFactor uniforms' = 0.5 + rnd k * 0.5 \<and>
      uWindSpeed uniforms' = (case opt_windSpeed roptions of None \<Rightarrow> 3 | Some v \<Rightarrow> v) \<and>
      uWindDirection uniforms' =
        (case opt_windDirection roptions of None \<Rightarrow> (1, 0, 1) | Some v \<Rightarrow> v) \<and>
      uWindIntensity uniforms' = (case opt_windIntensity roptions of None \<Rightarrow> 0.5 | Some v \<Rightarrow> v) \<and>
      uWindTurbulence uniforms' =
        (case opt_windTurbulence roptions of None \<Rightarrow> 0.7 | Some v \<Rightarrow> v) \<and>
      uGustFrequency uniforms' =
        (case opt_gustFrequency roptions of None \<Rightarrow> windGustFrequency closure | Some v \<Rightarrow> v) \<and>
      uGustIntensity uniforms' =
        (case opt_gustIntensity roptions of None \<Rightarrow> windGustIntensity closure | Some v \<Rightarrow> v) \<and>
      opt_microMovement roptions = Some (uMicroMovement uniforms') \<and>
      opt_wavePropagation roptions = Some (uWavePropagation uniforms') \<and>
      uColorBottom uniforms' = uColorBottom runiforms \<and>
      uColorTop uniforms' = uColorTop runiforms \<and>
      uBladeHeight uniforms' = uBladeHeight runiforms \<and>
      uBladeWidth uniforms' = uBladeWidth runiforms)"
proof (rule conjI)
  show "case updateWind_simple rnd k uniforms time options of (uniforms', k') \<Rightarrow>
      uTime uniforms' = time \<and>
      uWindNoiseFactor uniforms' = 0.5 + rnd k * 0.5 \<and>
      uWindSpeed uniforms' = (case opt_windSpeed options of None \<Rightarrow> 5.5 | Some v \<Rightarrow> v) \<and>
      uWindDirection uniforms' =
        (case opt_windDirection options of None \<Rightarrow> (1, 0, 1) | Some v \<Rightarrow> v) \<and>
      uWindIntensity uniforms' = (case opt_windIntensity options of None \<Rightarrow> 1 | Some v \<Rightarrow> v) \<and>
      uWindTurbulence uniforms' =
        (case opt_windTurbulence options of None \<Rightarrow> 0.8 | Some v \<Rightarrow> v) \<and>
      uColorBottom uniforms' = uColorBottom uniforms \<and>
      uColorTop uniforms' = uColorTop uniforms \<and>
      uBladeHeight uniforms' = uBladeHeight uniforms \<and>
      uBladeWidth uniforms' = uBladeWidth uniforms"
    by (simp add: updateWind_simple_def orDefault_def Let_def split: option.splits)
  show "case updateWind_rich closure rnd k runiforms time roptions of
      Inl e \<Rightarrow> e = ReferenceError \<and>
        (opt_microMovement roptions = None \<or> opt_wavePropagation roptions = None)
    | Inr (uniforms', k') \<Rightarrow>
      uTime uniforms' = time \<and>
      uWindNoiseFactor uniforms' = 0.5 + rnd k * 0.5 \<and>
      uWindSpeed uniforms' = (case opt_windSpeed roptions of None \<Rightarrow> 3 | Some v \<Rightarrow> v) \<and>
      uWindDirection uniforms' =
        (case opt_windDirection roptions of None \<Rightarrow> (1, 0, 1) | Some v \<Rightarrow> v) \<and>
      uWindIntensity uniforms' = (case opt_windIntensity roptions of None \<Rightarrow> 0.5 | Some v \<Rightarrow> v) \<and>
      uWindTurbulence uniforms' =
        (case opt_windTurbulence roptions of None \<Rightarrow> 0.7 | Some v \<Rightarrow> v) \<and>
      uGustFrequency uniforms' =
        (case opt_gustFrequency roptions of None \<Rightarrow> windGustFrequency closure | Some v \<Rightarrow> v) \<and>
      uGustIntensity uniforms' =
        (case opt_gustIntensity roptions of None \<Rightarrow> windGustIntensity closure | Some v \<Rightarrow> v) \<and>
      opt_microMovement roptions = Some (uMicroMovement uniforms') \<and>
      opt_wavePropagation roptions = Some (uWavePropagation uniforms') \<and>
      uColorBottom uniforms' = uColorBottom runiforms \<and>
      uColorTop uniforms' = uColorTop runiforms \<and>
      uBladeHeight uniforms' = uBladeHeight runiforms \<and>
      uBladeWidth uniforms' = uBladeWidth runiforms"
    by (cases "opt_microMovement roptions"; cases "opt_wavePropagation roptions")
       (simp_all add: updateWind_rich_def orDefault_def Let_def split: option.splits)
qed

text \<open>
  C10. In the rich variant \<open>updateWind\<close> raises ReferenceError exactly when \<open>options\<close>
  omits \<open>microMovement\<close> or \<open>wavePropagation\<close>, and returns normally (having drawn one
  random number) exactly when both are supplied.
\<close>

theorem updateWind_rich_reference_error:
  "(updateWind_rich closure rnd k uniforms time options = Inl ReferenceError) =
     (opt_microMovement options = None \<or> opt_wavePropagation options = None) \<and>
   (\<exists>uniforms'. updateWind_rich closure rnd k uniforms time options = Inr (uniforms', k + 1)) =
     (opt_microMovement options \<noteq> None \<and> opt_wavePropagation options \<noteq> None)"
  by (cases "opt_microMovement options"; cases "opt_wavePropagation options")
     (simp_all add: updateWind_rich_def Let_def)

section \<open>Claims about field construction\<close>









section \<open>Claims about the wind animation\<close>

text \<open>
  C1, as stated, fails for the simple variant. Its shader computes
  \<open>(sin(windTime + noise1 * 2) * 0.7 + cos(windTime * 1.5 + noise2 * 2) * 0.5)\<close> times
  turbulence times intensity: other weights, another cosine frequency and no position
  terms. At the tip vertex of an instance at the origin, at time 0 and with the default
  parameters, this differs from the stated sum even when the \<open>noise3\<close> term is omitted and
  the gust, spatial wave and individual phase, which this shader does not compute, are
  taken as 0.
\<close>

theorem simple_wind_signal_counterexample:
  "\<exists>s. main_simple (grassMaterial_simple simple_defaults (1, 0, 1)) tipVertex = Some s \<and>
     rawWindIntensity s \<noteq>
       spec_windSignal (windTime s) (noise1 s) (noise2 s) None 0 0 0 0 0
         (uWindTurbulence (grassMaterial_simple simple_defaults (1, 0, 1)))
         (uWindIntensity (grassMaterial_simple simple_defaults (1, 0, 1)))"
proof -
  let ?u = "grassMaterial_simple simple_defaults (1, 0, 1)"
  let ?c = "- (6464647 / 7776000) :: real"
  obtain s where s: "main_simple ?u tipVertex = Some s"
    using main_simple_defined [of tipVertex "1 / 4" 15 0 ?u]
    by (auto simp: tipVertex_def grassMaterial_simple_def simple_defaults_def)
  note f = main_simple_Some [OF s, of "1 / 4" 15 0 "(1, 0, 0, 0)" "(0, 1, 0, 0)" "(0, 0, 1, 0)"
      0 0 0 1]
  have p: "position tipVertex = (1 / 4, 15, 0)"
    "instanceMatrix tipVertex = ((1, 0, 0, 0), (0, 1, 0, 0), (0, 0, 1, 0), (0, 0, 0, 1))"
    by (simp_all add: tipVertex_def)
  have wt: "windTime s = 0"
    using f [OF p] by (simp add: grassMaterial_simple_def)
  have "snoise (0 * 0.15, 0 * 0.15, windTime s * 0.3) = Some (noise1 s)"
    "snoise (0 * 0.1, 0 * 0.1, windTime s * 0.2) = Some (noise2 s)"
    using f [OF p] by blast+
  then have n: "noise1 s = ?c" "noise2 s = ?c"
    using wt snoise_origin by simp_all
  have raw: "rawWindIntensity s =
       (sin (windTime s + noise1 s * 2) * 0.7 + cos (windTime s * 1.5 + noise2 s * 2) * 0.5) *
       uWindTurbulence ?u * uWindIntensity ?u"
    using f [OF p] by blast
  have "sin (?c * 2) + cos (?c * 2) < 0" by (rule sin_plus_cos_negative) simp_all
  then have "(sin (?c * 2) * 0.7 + cos (?c * 2) * 0.5) \<noteq> (sin (?c * 2) * 0.5 + cos (?c * 2) * 0.3)"
    by linarith
  then have "rawWindIntensity s \<noteq>
       spec_windSignal (windTime s) (noise1 s) (noise2 s) None 0 0 0 0 0
         (uWindTurbulence ?u) (uWindIntensity ?u)"
    unfolding raw wt n spec_windSignal_def
    by (simp add: grassMaterial_simple_def simple_defaults_def)
  then show ?thesis using s by blast
qed

text \<open>
  C1, amended. In the rich variant the raw wind signal (the local \<open>windIntensity\<close> after
  its initialiser) is the stated weighted sum, with the \<open>noise3\<close> term, times turbulence
  times intensity, where gust, spatial wave and individual phase are as steps 5 to 7 of
  the specification give them. In the simple variant it is
  \<open>(sin(windTime + noise1 * 2) * 0.7 + cos(windTime * 1.5 + noise2 * 2) * 0.5)\<close> times
  turbulence times intensity.
\<close>

theorem raw_wind_signal_matches_formula:
  assumes "instanceMatrix a = (m0, m1, m2, (worldX, worldY, worldZ, m3w))"
  shows "(main_rich u a = Some r \<longrightarrow>
            rawWindIntensity r =
              spec_windSignal (windTime r) (noise1 r) (noise2 r) (Some (noise3 r)) worldX worldZ
                (gust r) (spatialWave r) (individualPhase r)
                (uWindTurbulence u) (uWindIntensity u) \<and>
            windTime r = uTime u * uWindSpeed u \<and>
            snoise (worldX * 0.15, worldZ * 0.15, windTime r * 0.3) = Some (noise1 r) \<and>
            snoise (worldX * 0.1, worldZ * 0.1, windTime r * 0.2) = Some (noise2 r) \<and>
            snoise (worldX * 0.05, worldZ * 0.05, windTime r * 0.1) = Some (noise3 r) \<and>
            gust r = spec_gust (windTime r) (uGustFrequency u) (uGustIntensity u) \<and>
            spatialWave r = spec_spatialWave worldX worldZ (uWavePropagation u) (windTime r) \<and>
            individualPhase r =
              spec_individualPhase (windTime r) (aPhaseOffset a) (uMicroMovement u)) \<and>
         (main_simple su a = Some s \<longrightarrow>
            rawWindIntensity s =
              (sin (windTime s + noise1 s * 2) * 0.7 + cos (windTime s * 1.5 + noise2 s * 2) * 0.5) *
              (uWindTurbulence su * uWindIntensity su) \<and>
            windTime s = uTime su * uWindSpeed su \<and>
            snoise (worldX * 0.15, worldZ * 0.15, windTime s * 0.3) = Some (noise1 s) \<and>
            snoise (worldX * 0.1, worldZ * 0.1, windTime s * 0.2) = Some (noise2 s))"
proof (intro conjI impI)
  obtain px py pz where p: "position a = (px, py, pz)" by (cases "position a")
  {
    assume r: "main_rich u a = Some r"
    note f = main_rich_Some [OF r p assms]
    show "windTime r = uTime u * uWindSpeed u"
      "snoise (worldX * 0.15, worldZ * 0.15, windTime r * 0.3) = Some (noise1 r)"
      "snoise (worldX * 0.1, worldZ * 0.1, windTime r * 0.2) = Some (noise2 r)"
      "snoise (worldX * 0.05, worldZ * 0.05, windTime r * 0.1) = Some (noise3 r)"
      using f by blast+
    show "spatialWave r = spec_spatialWave worldX worldZ (uWavePropagation u) (windTime r)"
      "individualPhase r = spec_individualPhase (windTime r) (aPhaseOffset a) (uMicroMovement u)"
      unfolding spec_spatialWave_def spec_individualPhase_def using f by blast+
    have "gust r = (sin (windTime r * uGustFrequency u) * 0.5 + 0.5) powr 3 * uGustIntensity u"
      using f by blast
    then show "gust r = spec_gust (windTime r) (uGustFrequency u) (uGustIntensity u)"
      unfolding spec_gust_def
      using powr3_nonneg [OF gust_base_nonneg [of "windTime r * uGustFrequency u"]] by simp
    have "rawWindIntensity r =
           (sin (windTime r + noise1 r * 2 + worldX * 0.01) * 0.5 +
            cos (windTime r * 0.5 + noise2 r * 2 + worldZ * 0.01) * 0.3 +
            sin (windTime r * 0.2 + noise3 r * 1) * 0.2 +
            gust r + spatialWave r * 0.3 + individualPhase r) *
           uWindTurbulence u * uWindIntensity u"
      using f by blast
    then show "rawWindIntensity r =
              spec_windSignal (windTime r) (noise1 r) (noise2 r) (Some (noise3 r)) worldX worldZ
                (gust r) (spatialWave r) (individualPhase r)
                (uWindTurbulence u) (uWindIntensity u)"
      unfolding spec_windSignal_def by (simp add: mult.assoc)
  }
  {
    assume s: "main_simple su a = Some s"
    note f = main_simple_Some [OF s p assms]
    show "windTime s = uTime su * uWindSpeed su"
      "snoise (worldX * 0.15, worldZ * 0.15, windTime s * 0.3) = Some (noise1 s)"
      "snoise (worldX * 0.1, worldZ * 0.1, windTime s * 0.2) = Some (noise2 s)"
      using f by blast+
    have "rawWindIntensity s =
           (sin (windTime s + noise1 s * 2) * 0.7 + cos (windTime s * 1.5 + noise2 s * 2) * 0.5) *
           uWindTurbulence su * uWindIntensity su"
      using f by blast
    then show "rawWindIntensity s =
              (sin (windTime s + noise1 s * 2) * 0.7 + cos (windTime s * 1.5 + noise2 s * 2) * 0.5) *
              (uWindTurbulence su * uWindIntensity su)"
      by (simp add: mult.assoc)
  }
qed

theorem raw_wind_signal_matches_formula_witness:
  "\<exists>r s. main_rich (grassMaterial_rich rich_defaults (1, 0, 1)) tipVertex = Some r \<and>
      main_simple (grassMaterial_simple simple_defaults (1, 0, 1)) tipVertex = Some s \<and>
      rawWindIntensity r =
        spec_windSignal (windTime r) (noise1 r) (noise2 r) (Some (noise3 r)) 0 0
          (gust r) (spatialWave r) (individualPhase r) (7 / 10) (7 / 5) \<and>
      rawWindIntensity s =
        (sin (windTime s + noise1 s * 2) * 0.7 + cos (windTime s * 1.5 + noise2 s * 2) * 0.5) *
        (7 / 10 * (1 / 2))"
proof -
  let ?u = "grassMaterial_rich rich_defaults (1, 0, 1)"
  let ?su = "grassMaterial_simple simple_defaults (1, 0, 1)"
  obtain r where r: "main_rich ?u tipVertex = Some r"
    using tip_rich_defined [of 1] by (auto simp: tipVertex_def)
  obtain s where s: "main_simple ?su tipVertex = Some s"
    using tip_simple_defined by blast
  have m: "instanceMatrix tipVertex = ((1, 0, 0, 0), (0, 1, 0, 0), (0, 0, 1, 0), (0, 0, 0, 1))"
    by (simp add: tipVertex_def)
  have u: "uWindTurbulence ?u = 7 / 10" "uWindIntensity ?u = 7 / 5"
    "uWindTurbulence ?su = 7 / 10" "uWindIntensity ?su = 1 / 2"
    by (simp_all add: grassMaterial_rich_def rich_defaults_def grassMaterial_simple_def
        simple_defaults_def)
  show ?thesis
    using raw_wind_signal_matches_formula [OF m, of ?u r ?su s] r s
    unfolding u by blast
qed

text \<open>
  C8, as stated, fails: at a base vertex (\<open>position.y = 0\<close>) the height factor is 0, so
  the sway is 0 at stiffness 0.7 and at stiffness 1.3, and neither magnitude is strictly
  greater.
\<close>

theorem base_vertex_sway_counterexample:
  "\<exists>r1 r2.
     main_rich (grassMaterial_rich rich_defaults (1, 0, 1)) (baseVertex\<lparr>aStiffness := 0.7\<rparr>) = Some r1 \<and>
     main_rich (grassMaterial_rich rich_defaults (1, 0, 1)) (baseVertex\<lparr>aStiffness := 1.3\<rparr>) = Some r2 \<and>
     sway r1 = 0 \<and> sway r2 = 0 \<and> \<not> \<bar>sway r2\<bar> < \<bar>sway r1\<bar>"
proof -
  let ?u = "grassMaterial_rich rich_defaults (1, 0, 1)"
  have z: "sway r = 0" if "main_rich ?u (baseVertex\<lparr>aStiffness := s\<rparr>) = Some r" for r s
  proof -
    have "heightFactor r = (0 * (aBladeHeight (baseVertex\<lparr>aStiffness := s\<rparr>) / uBladeHeight ?u) /
        aBladeHeight (baseVertex\<lparr>aStiffness := s\<rparr>)) powr 2"
      "sway r = stiffWindIntensity r * heightFactor r *
                    (1 + uWindNoiseFactor ?u * (noise1 r + noise2 r))"
      using main_rich_Some [OF that, of "- (1 / 4)" 0 0 "(1, 0, 0, 0)" "(0, 1, 0, 0)" "(0, 0, 1, 0)"
          0 0 0 1]
      by (simp_all add: baseVertex_def tipVertex_def)
    then show ?thesis by simp
  qed
  obtain r1 where r1: "main_rich ?u (baseVertex\<lparr>aStiffness := 0.7\<rparr>) = Some r1"
    using base_rich_defined [of "0.7"] by auto
  obtain r2 where r2: "main_rich ?u (baseVertex\<lparr>aStiffness := 1.3\<rparr>) = Some r2"
    using base_rich_defined [of "1.3"] by auto
  show ?thesis
    using r1 r2 z [OF r1] z [OF r2] by auto
qed

text \<open>
  C8, amended. For two evaluations of the rich shader with identical inputs except
  stiffness 0.7 and stiffness 1.3, the sway magnitudes are inversely proportional to the
  stiffness (magnitude times stiffness is the same), so the magnitude at stiffness 0.7 is
  at least the one at 1.3, and strictly greater whenever the sway at stiffness 1.3 is not
  0.
\<close>

theorem sway_inverse_in_stiffness:
  assumes "main_rich u (a\<lparr>aStiffness := 0.7\<rparr>) = Some r1"
    and "main_rich u (a\<lparr>aStiffness := 1.3\<rparr>) = Some r2"
  shows "\<bar>sway r1\<bar> * 0.7 = \<bar>sway r2\<bar> * 1.3 \<and> \<bar>sway r2\<bar> \<le> \<bar>sway r1\<bar> \<and>
         (sway r2 \<noteq> 0 \<longrightarrow> \<bar>sway r2\<bar> < \<bar>sway r1\<bar>)"
proof -
  obtain px py pz where p: "position a = (px, py, pz)" by (cases "position a")
  obtain m0 m1 m2 ix iy iz iw where m: "instanceMatrix a = (m0, m1, m2, (ix, iy, iz, iw))"
    by (metis prod_cases4)
  obtain n1 where n1: "snoise (ix * 0.15, iz * 0.15, uTime u * uWindSpeed u * 0.3) = Some n1"
    using snoise_defined by blast
  obtain n2 where n2: "snoise (ix * 0.1, iz * 0.1, uTime u * uWindSpeed u * 0.2) = Some n2"
    using snoise_defined by blast
  obtain n3 where n3: "snoise (ix * 0.05, iz * 0.05, uTime u * uWindSpeed u * 0.1) = Some n3"
    using snoise_defined by blast
  define W where "W =
      (sin (uTime u * uWindSpeed u + n1 * 2 + ix * 0.01) * 0.5 +
       cos (uTime u * uWindSpeed u * 0.5 + n2 * 2 + iz * 0.01) * 0.3 +
       sin (uTime u * uWindSpeed u * 0.2 + n3 * 1) * 0.2 +
       (sin (uTime u * uWindSpeed u * uGustFrequency u) * 0.5 + 0.5) powr 3 * uGustIntensity u +
       (sin (ix * uWavePropagation u + iz * uWavePropagation u +
             uTime u * uWindSpeed u * 0.5) * 0.5 + 0.5) * 0.3 +
       sin (uTime u * uWindSpeed u * 0.7 + aPhaseOffset a) * uMicroMovement u) *
      uWindTurbulence u * uWindIntensity u"
  define H where "H = (py * (aBladeHeight a / uBladeHeight u) / aBladeHeight a) powr 2"
  define F where "F = 1 + uWindNoiseFactor u * (n1 + n2)"
  define k where "k = W * H * F"
  have "sway r1 = W * (1 / 0.7) * H * F"
    unfolding W_def H_def F_def by (rule main_rich_sway_factor [OF assms(1) p m n1 n2 n3])
  then have s1: "sway r1 = k * (10 / 7)" by (simp add: k_def)
  have "sway r2 = W * (1 / 1.3) * H * F"
    unfolding W_def H_def F_def by (rule main_rich_sway_factor [OF assms(2) p m n1 n2 n3])
  then have s2: "sway r2 = k * (10 / 13)" by (simp add: k_def)
  have a1: "\<bar>sway r1\<bar> = \<bar>k\<bar> * (10 / 7)" unfolding s1 by (simp add: abs_mult)
  have a2: "\<bar>sway r2\<bar> = \<bar>k\<bar> * (10 / 13)" unfolding s2 by (simp add: abs_mult)
  have "\<bar>sway r1\<bar> * 0.7 = \<bar>sway r2\<bar> * 1.3" unfolding a1 a2 by simp
  moreover have "\<bar>sway r2\<bar> \<le> \<bar>sway r1\<bar>" unfolding a1 a2 by simp
  moreover have "\<bar>sway r2\<bar> < \<bar>sway r1\<bar>" if "sway r2 \<noteq> 0"
  proof -
    have "0 < \<bar>k\<bar>" using that s2 by auto
    then show ?thesis unfolding a1 a2 by simp
  qed
  ultimately show ?thesis by blast
qed

theorem sway_inverse_in_stiffness_witness:
  "\<exists>r1 r2.
     main_rich (grassMaterial_rich rich_defaults (1, 0, 1)) (tipVertex\<lparr>aStiffness := 0.7\<rparr>) = Some r1 \<and>
     main_rich (grassMaterial_rich rich_defaults (1, 0, 1)) (tipVertex\<lparr>aStiffness := 1.3\<rparr>) = Some r2 \<and>
     \<bar>sway r1\<bar> * 0.7 = \<bar>sway r2\<bar> * 1.3 \<and> \<bar>sway r2\<bar> \<le> \<bar>sway r1\<bar>"
proof -
  let ?u = "grassMaterial_rich rich_defaults (1, 0, 1)"
  obtain r1 where r1: "main_rich ?u (tipVertex\<lparr>aStiffness := 0.7\<rparr>) = Some r1"
    using tip_rich_defined [of "0.7"] by auto
  obtain r2 where r2: "main_rich ?u (tipVertex\<lparr>aStiffness := 1.3\<rparr>) = Some r2"
    using tip_rich_defined [of "1.3"] by auto
  show ?thesis
    using sway_inverse_in_stiffness [OF r1 r2] r1 r2 by blast
qed

text \<open>
  C7, as stated, fails: the shaders guard neither the wind direction nor the division by
  the instance height. With a zero-length wind direction \<open>normalize\<close> is undefined and
  with it the displaced position, in both variants; with \<open>aBladeHeight = 0\<close> the rich
  shader divides by zero in the height factor.
\<close>

theorem unguarded_direction_and_height_counterexample:
  "main_rich (grassMaterial_rich rich_defaults (0, 0, 0)) tipVertex = None \<and>
   main_rich (grassMaterial_rich rich_defaults (1, 0, 1)) (tipVertex\<lparr>aBladeHeight := 0\<rparr>) = None \<and>
   main_simple (grassMaterial_simple simple_defaults (0, 0, 0)) tipVertex = None \<and>
   normalize (0, 0, 0) = None \<and> gl_div 0 0 = None"
proof -
  have p: "position tipVertex = (1 / 4, 15, 0)"
    "position (tipVertex\<lparr>aBladeHeight := 0\<rparr>) = (1 / 4, 15, 0)"
    by (simp_all add: tipVertex_def)
  have "\<not> (\<exists>r. main_rich (grassMaterial_rich rich_defaults (0, 0, 0)) tipVertex = Some r)"
    unfolding main_rich_defined_iff [OF p(1)] by (simp add: grassMaterial_rich_def)
  moreover have "\<not> (\<exists>r. main_rich (grassMaterial_rich rich_defaults (1, 0, 1))
      (tipVertex\<lparr>aBladeHeight := 0\<rparr>) = Some r)"
    unfolding main_rich_defined_iff [OF p(2)] by simp
  moreover have "\<not> (\<exists>r. main_simple (grassMaterial_simple simple_defaults (0, 0, 0)) tipVertex =
      Some r)"
    unfolding main_simple_defined_iff [OF p(1)] by (simp add: grassMaterial_simple_def)
  moreover have "normalize (0, 0, 0) = None"
    by (simp add: normalize_def inversesqrt_def dot3_def)
  moreover have "gl_div 0 0 = None" by (simp add: gl_div_def)
  ultimately show ?thesis by simp
qed

text \<open>
  C7, amended. In exact arithmetic the rich shader computes a sway and a displaced position
  exactly when the instance height, the base height and the stiffness are not 0, the wind
  direction is not the zero vector and the height ratio \<open>scaledY / aBladeHeight\<close> is not
  negative; the simple shader exactly when the base height is not 0, the wind direction is
  not the zero vector and \<open>position.y / uBladeHeight\<close> is not negative. The noise function
  is defined for every input (lemma \<open>snoise_defined\<close>).
\<close>

theorem sway_defined_exactly_when:
  "(\<exists>r. main_rich u a = Some r) =
     (aBladeHeight a \<noteq> 0 \<and> uBladeHeight u \<noteq> 0 \<and> aStiffness a \<noteq> 0 \<and>
      uWindDirection u \<noteq> (0, 0, 0) \<and>
      0 \<le> fst (snd (position a)) * (aBladeHeight a / uBladeHeight u) / aBladeHeight a) \<and>
   (\<exists>s. main_simple su a = Some s) =
     (uBladeHeight su \<noteq> 0 \<and> uWindDirection su \<noteq> (0, 0, 0) \<and>
      0 \<le> fst (snd (position a)) / uBladeHeight su)"
proof -
  obtain px py pz where p: "position a = (px, py, pz)" by (cases "position a")
  show ?thesis
    using main_rich_defined_iff [OF p, of u] main_simple_defined_iff [OF p, of su]
    by (simp add: p)
qed

end
